theory Spec2Isabelle
  imports Complex_Main "HOL-Library.Product_Lexorder" "HOL-Library.List_Lexorder"
    "HOL-Library.Char_ord"
begin

section \<open>Tables\<close>

text \<open>
  The controllers talk to PostgreSQL through TypeORM. A table is the list of its rows.
  Only the columns that the modelled queries read are kept. Timestamps are integers
  (milliseconds), identifiers of users are the uuid strings of the \<open>users\<close> table.
  The entities of levels, charts, records and ratings are declared in \<open>models/level\<close>
  and \<open>models/record\<close>, whose column types are left open here: the numeric columns are
  taken as exact numbers (\<open>real\<close>, or \<open>rat\<close> for a rating), a score as an integer, and
  SQL arithmetic on them as exact arithmetic.
\<close>

record user_row =
  user_id :: string
  user_uid :: "string option"
  user_name :: string

record level_row =
  level_id :: int
  level_uid :: string
  level_ownerId :: string
  level_duration :: real
  level_date_created :: int
  level_date_modified :: int
  level_published :: bool
  level_censored :: "string option"
  level_category :: "string list"
  level_tags :: "string list"

record chart_row =
  chart_id :: int
  chart_levelId :: int
  chart_type :: string
  chart_difficulty :: real
  chart_notesCount :: real

record record_row =
  rec_id :: int
  rec_ownerId :: string
  rec_chartId :: int
  rec_score :: int
  rec_accuracy :: real
  rec_date :: int
  rec_ranked :: bool

record rating_row =
  rating_levelId :: int
  rating_userId :: string
  rating_value :: rat

record download_row =
  download_levelId :: int
  download_userId :: string

record database =
  users :: "user_row list"
  levels :: "level_row list"
  charts :: "chart_row list"
  records :: "record_row list"
  level_ratings :: "rating_row list"
  level_downloads :: "download_row list"

datatype error = BadRequestError | NotFoundError | QueryFailedError

section \<open>SQL building blocks\<close>

text \<open>
  A scalar subquery \<open>(SELECT c FROM t WHERE ...)\<close> is NULL on no row, the value on one
  row, and the statement fails on more than one row.
\<close>

definition scalar :: "'a list \<Rightarrow> error + 'a option" where
  "scalar rows = (case rows of [] \<Rightarrow> Inr None | [x] \<Rightarrow> Inr (Some x) | _ \<Rightarrow> Inl QueryFailedError)"

text \<open>\<open>(SELECT id FROM levels WHERE uid = :uid)\<close>\<close>

definition level_id_of_uid :: "database \<Rightarrow> string \<Rightarrow> error + int option" where
  "level_id_of_uid db uid = scalar (map level_id (filter (\<lambda>l. level_uid l = uid) (levels db)))"

text \<open>
  \<open>(SELECT id FROM charts WHERE "levelId"=(SELECT id FROM levels WHERE uid=:uid) AND type=:type)\<close>;
  a comparison with NULL selects no row.
\<close>

definition chart_id_of :: "database \<Rightarrow> string \<Rightarrow> string \<Rightarrow> error + int option" where
  "chart_id_of db uid ctype =
     (case level_id_of_uid db uid of
        Inl e \<Rightarrow> Inl e
      | Inr lid \<Rightarrow> scalar (map chart_id
          (filter (\<lambda>c. Some (chart_levelId c) = lid \<and> chart_type c = ctype) (charts db))))"

text \<open>
  \<open>SELECT DISTINCT ON (k) * ... ORDER BY k, ...\<close> keeps the first row of every run of rows
  with the same \<open>k\<close> in the sorted input.
\<close>

fun distinct_on :: "('a \<Rightarrow> 'k) \<Rightarrow> 'a list \<Rightarrow> 'a list" where
  "distinct_on k [] = []"
| "distinct_on k [x] = [x]"
| "distinct_on k (x # y # xs) =
     (if k x = k y then distinct_on k (x # xs) else x # distinct_on k (y # xs))"

text \<open>
  \<open>rank() OVER (ORDER BY ...)\<close> walks the rows in the window's order: a row that is a peer
  of the previous one (same ordering key) takes its rank, any other row takes its
  position, counted from 1.
\<close>

fun rank_over :: "('a \<Rightarrow> 'k) \<Rightarrow> nat \<Rightarrow> ('k \<times> nat) option \<Rightarrow> 'a list \<Rightarrow> ('a \<times> nat) list" where
  "rank_over k pos prev [] = []"
| "rank_over k pos prev (x # xs) =
     (let r = (case prev of
                 None \<Rightarrow> pos
               | Some (kp, rp) \<Rightarrow> if kp = k x then rp else pos)
      in (x, r) # rank_over k (Suc pos) (Some (k x, r)) xs)"

section \<open>LevelController.queryLeaderboard\<close>

record lb_entry =
  lb_record :: record_row
  lb_owner :: "user_row option"
  lb_rank :: nat

text \<open>The ordering key of \<open>ORDER BY score DESC, date ASC\<close>.\<close>

definition score_date_key :: "record_row \<Rightarrow> int \<times> int" where
  "score_date_key r = (- rec_score r, rec_date r)"

text \<open>
  The subquery \<open>r\<close>: the ranked records of the chart, one per owner, the first in
  \<open>ORDER BY "ownerId", score DESC, date ASC\<close>.
\<close>

definition best_records :: "database \<Rightarrow> int option \<Rightarrow> record_row list" where
  "best_records db cid =
     distinct_on rec_ownerId
       (sort_key (\<lambda>r. (rec_ownerId r, score_date_key r))
          (filter (\<lambda>r. Some (rec_chartId r) = cid \<and> rec_ranked r) (records db)))"

text \<open>\<open>leftJoin('r.owner', 'u')\<close>: the owner is looked up by the primary key of \<open>users\<close>.\<close>

definition join_owner :: "database \<Rightarrow> record_row \<Rightarrow> record_row \<times> user_row option" where
  "join_owner db r = (r, find (\<lambda>u. user_id u = rec_ownerId r) (users db))"

text \<open>
  The main query has no ORDER BY of its own: PostgreSQL sorts the joined rows for the
  window and returns them in that order.
\<close>

definition leaderboard_rows :: "database \<Rightarrow> int option \<Rightarrow> lb_entry list" where
  "leaderboard_rows db cid =
     map (\<lambda>((r, u), n). \<lparr>lb_record = r, lb_owner = u, lb_rank = n\<rparr>)
       (rank_over (\<lambda>(r, u). score_date_key r) 1 None
          (sort_key (\<lambda>(r, u). score_date_key r) (map (join_owner db) (best_records db cid))))"

definition queryLeaderboard :: "database \<Rightarrow> string \<Rightarrow> string \<Rightarrow> error + lb_entry list" where
  "queryLeaderboard db levelUid chartType =
     (case chart_id_of db levelUid chartType of
        Inl e \<Rightarrow> Inl e
      | Inr cid \<Rightarrow> Inr (leaderboard_rows db cid))"

text \<open>
  The order of the leaderboard, written out: \<open>a\<close> comes strictly before \<open>b\<close> when its
  score is higher, or the scores are equal and its date is earlier.
\<close>

definition precedes :: "record_row \<Rightarrow> record_row \<Rightarrow> bool" where
  "precedes a b =
     (rec_score b < rec_score a \<or> (rec_score a = rec_score b \<and> rec_date a < rec_date b))"

section \<open>JavaScript strings and numbers\<close>

text \<open>
  Strings are ASCII here: \<open>toUpperCase\<close> and \<open>toLowerCase\<close> act on the letters a to z,
  \<open>split\<close> cuts at every separator and returns at least one piece.
\<close>

definition toUpperCase :: "string \<Rightarrow> string" where
  "toUpperCase s =
     map (\<lambda>c. if CHR ''a'' \<le> c \<and> c \<le> CHR ''z'' then char_of (of_char c - (32::nat)) else c) s"

definition toLowerCase :: "string \<Rightarrow> string" where
  "toLowerCase s =
     map (\<lambda>c. if CHR ''A'' \<le> c \<and> c \<le> CHR ''Z'' then char_of (of_char c + (32::nat)) else c) s"

fun split :: "char \<Rightarrow> string \<Rightarrow> string list" where
  "split sep [] = [[]]"
| "split sep (c # cs) =
     (if c = sep then [] # split sep cs
      else (case split sep cs of [] \<Rightarrow> [[c]] | w # ws \<Rightarrow> (c # w) # ws))"

text \<open>\<open>Number.isInteger\<close> on a finite number.\<close>

definition isInteger :: "rat \<Rightarrow> bool" where
  "isInteger x = (of_int \<lfloor>x\<rfloor> = x)"

section \<open>LevelController.getChartRanking\<close>

text \<open>
  A JavaScript number that reaches a response header is finite, or the quotient of a
  division by zero. The header's text is the decimal form of the number; the number
  itself is kept here.
\<close>

datatype js_number = Finite rat | Infinity | NaN

datatype header_value = Text string | Number js_number

type_synonym headers = "string \<rightharpoonup> header_value"

text \<open>
  \<open>Math.floor(count / limit)\<close> for a count that is not negative; the quotient is the exact
  one here, where JavaScript rounds it to a floating-point number first.
\<close>

definition floor_div :: "nat \<Rightarrow> rat \<Rightarrow> js_number" where
  "floor_div count lmt =
     (if lmt = 0 then (if count = 0 then NaN else Infinity)
      else Finite (of_int \<lfloor>of_nat count / lmt\<rfloor>))"

text \<open>
  \<open>.limit(l).offset(o)\<close>: TypeORM writes \<open>LIMIT l\<close> and \<open>OFFSET o\<close> into the statement
  unless the value is falsy (zero). PostgreSQL rounds the number to an integer and rejects
  a negative one.
\<close>

definition pg_round :: "rat \<Rightarrow> int" where
  "pg_round x = (if 0 \<le> x then \<lfloor>x + 1 / 2\<rfloor> else - \<lfloor>- x + 1 / 2\<rfloor>)"

definition limit_offset :: "rat \<Rightarrow> rat \<Rightarrow> 'a list \<Rightarrow> error + 'a list" where
  "limit_offset lmt ofs rows =
     (if pg_round lmt < 0 \<or> pg_round ofs < 0 then Inl QueryFailedError
      else Inr ((if lmt = 0 then (\<lambda>xs. xs) else take (nat (pg_round lmt)))
                  ((if ofs = 0 then (\<lambda>xs. xs) else drop (nat (pg_round ofs))) rows)))"

text \<open>
  The column \<open>users.id\<close> is a uuid. PostgreSQL compares uuids, not their texts: it reads
  the text of a uuid in either case of the letters and prints it in lower case.
  \<open>uuid_of_text\<close> is the printed form of the uuid that a text denotes; two texts denote
  the same uuid when their printed forms are equal. The tables hold printed forms.
\<close>

definition uuid_of_text :: "string \<Rightarrow> string" where
  "uuid_of_text s = toLowerCase s"

text \<open>
  \<open>SELECT rank FROM lb WHERE u_id = :user\<close>, or
  \<open>... WHERE u_id = (SELECT id FROM users WHERE uid = :user)\<close> when the parameter is not
  a version 4 uuid. The validator \<open>isUUID\<close> is the library's, and a parameter here; it
  accepts the letters of a uuid in either case, and the comparison with \<open>u_id\<close> is one of
  uuids. \<open>u_id\<close> is NULL on a row whose owner was not found by the join.
\<close>

definition rankQuery :: "(string \<Rightarrow> bool) \<Rightarrow> database \<Rightarrow> lb_entry list \<Rightarrow> string
    \<Rightarrow> error + nat option" where
  "rankQuery isUUID db lb user =
     (case (if isUUID user then Inr (Some user)
            else scalar (map user_id (filter (\<lambda>u. user_uid u = Some user) (users db)))) of
        Inl e \<Rightarrow> Inl e
      | Inr target \<Rightarrow>
          scalar (map lb_rank
            (filter (\<lambda>e. target \<noteq> None
                        \<and> map_option (\<lambda>u. uuid_of_text (user_id u)) (lb_owner e)
                            = map_option uuid_of_text target) lb)))"

text \<open>
  \<open>WITH lb AS (...) SELECT * FROM lb WHERE abs(rank - (rankQuery)) <= :userLimit\<close>.
  The parameter \<open>:userLimit\<close> stands against an integer, so PostgreSQL reads its text as an
  integer and the statement fails on the text of a fraction.
\<close>

definition around_user :: "(string \<Rightarrow> bool) \<Rightarrow> database \<Rightarrow> lb_entry list \<Rightarrow> string \<Rightarrow> rat
    \<Rightarrow> error + lb_entry list" where
  "around_user isUUID db lb user userLimit =
     (if \<not> isInteger userLimit then Inl QueryFailedError
      else case rankQuery isUUID db lb user of
             Inl e \<Rightarrow> Inl e
           | Inr None \<Rightarrow> Inr []
           | Inr (Some n) \<Rightarrow>
               Inr (filter (\<lambda>e. of_int \<bar>int (lb_rank e) - int n\<bar> \<le> userLimit) lb))"

text \<open>
  \<open>SELECT count(DISTINCT r."ownerId") FROM records r WHERE "chartId" = (...) AND ranked=true\<close>
\<close>

definition count_owners :: "database \<Rightarrow> string \<Rightarrow> string \<Rightarrow> error + nat" where
  "count_owners db uid ctype =
     (case chart_id_of db uid ctype of
        Inl e \<Rightarrow> Inl e
      | Inr cid \<Rightarrow> Inr (length (remdups (map rec_ownerId
          (filter (\<lambda>r. Some (rec_chartId r) = cid \<and> rec_ranked r) (records db))))))"

text \<open>The number of charts of the level with the type, for the existence check.\<close>

definition count_charts :: "database \<Rightarrow> string \<Rightarrow> string \<Rightarrow> error + nat" where
  "count_charts db uid ctype =
     (case level_id_of_uid db uid of
        Inl e \<Rightarrow> Inl e
      | Inr lid \<Rightarrow> Inr (length
          (filter (\<lambda>c. chart_type c = ctype \<and> Some (chart_levelId c) = lid) (charts db))))"

text \<open>
  The query parameters \<open>limit\<close>, \<open>page\<close> and \<open>userLimit\<close> default to 10, 0 and 3 when
  absent. A \<open>user\<close> that is absent or the empty string is falsy. Every row of the result
  is one entity, which takes the row's rank.
\<close>

definition getChartRanking :: "(string \<Rightarrow> bool) \<Rightarrow> database \<Rightarrow> headers \<Rightarrow> string \<Rightarrow> string
    \<Rightarrow> rat option \<Rightarrow> rat option \<Rightarrow> string option \<Rightarrow> rat option
    \<Rightarrow> error + headers \<times> lb_entry list" where
  "getChartRanking isUUID db ctx ident chartType limit_param page_param user userLimit_param =
     (let limit0 = (case limit_param of None \<Rightarrow> 10 | Some l \<Rightarrow> l);
          page = (case page_param of None \<Rightarrow> 0 | Some p \<Rightarrow> p);
          userLimit0 = (case userLimit_param of None \<Rightarrow> 3 | Some u \<Rightarrow> u);
          userLimit1 = (if userLimit0 < 0 then 0 else userLimit0);
          userLimit = (if 10 < userLimit1 then 10 else userLimit1);
          queried =
            (if user \<noteq> None \<and> user \<noteq> Some []
             then (case queryLeaderboard db ident chartType of
                     Inl e \<Rightarrow> Inl e
                   | Inr lb \<Rightarrow>
                       (case around_user isUUID db lb (the user) userLimit of
                          Inl e \<Rightarrow> Inl e
                        | Inr rows \<Rightarrow> Inr (ctx, rows)))
             else (let limit = (if 30 < limit0 then 30 else limit0)
                   in case count_owners db ident chartType of
                        Inl e \<Rightarrow> Inl e
                      | Inr count \<Rightarrow>
                          (let ctx1 = ctx(''X-Total-Page'' \<mapsto> Number (floor_div count limit));
                               ctx2 = ctx1(''X-Total-Entries'' \<mapsto> Number (Finite (of_nat count)));
                               ctx3 = ctx2(''X-Current-Page'' \<mapsto> Number (Finite page))
                           in case queryLeaderboard db ident chartType of
                                Inl e \<Rightarrow> Inl e
                              | Inr lb \<Rightarrow>
                                  (case limit_offset limit (limit * page) lb of
                                     Inl e \<Rightarrow> Inl e
                                   | Inr rows \<Rightarrow> Inr (ctx3, rows)))))
      in case queried of
           Inl e \<Rightarrow> Inl e
         | Inr (ctx', entities) \<Rightarrow>
             (if entities = []
              then (case count_charts db ident chartType of
                      Inl e \<Rightarrow> Inl e
                    | Inr count \<Rightarrow> if count = 0 then Inl NotFoundError else Inr (ctx', entities))
              else Inr (ctx', entities)))"

text \<open>
  The user that the parameter \<open>user\<close> of the ranking names: by id, as a uuid, when the
  parameter is a uuid, by uid otherwise.
\<close>

definition names_user :: "(string \<Rightarrow> bool) \<Rightarrow> string \<Rightarrow> user_row \<Rightarrow> bool" where
  "names_user isUUID user u =
     (if isUUID user then uuid_of_text (user_id u) = uuid_of_text user
      else user_uid u = Some user)"

section \<open>LevelController.getLevels\<close>

text \<open>A value of the query string is truthy when it is present and not empty.\<close>

definition truthy :: "string option \<Rightarrow> bool" where
  "truthy v = (v \<noteq> None \<and> v \<noteq> Some [])"

text \<open>The authenticated user (\<open>IUser\<close>): its id and its optional uid.\<close>

record current_user =
  cu_id :: string
  cu_uid :: "string option"

text \<open>
  \<open>ctx.request.query\<close>. The texts compared with numeric or date columns are kept as the
  numbers they denote, \<open>None\<close> when absent or empty.
\<close>

record levels_request =
  q_sort :: "string option"
  q_search :: "string option"
  q_type :: "string option"
  q_max_difficulty :: "real option"
  q_min_difficulty :: "real option"
  q_date_start :: "int option"
  q_date_end :: "int option"
  q_featured :: "string option"
  q_tags :: "string option"
  q_owner :: "string option"

text \<open>\<open>avg\<close> is NULL over no rows.\<close>

definition sql_avg :: "'a::field_char_0 list \<Rightarrow> 'a option" where
  "sql_avg xs = (if xs = [] then None else Some (sum_list xs / of_nat (length xs)))"

definition ratings_of_level :: "database \<Rightarrow> int \<Rightarrow> rat list" where
  "ratings_of_level db lid =
     map rating_value (filter (\<lambda>r. rating_levelId r = lid) (level_ratings db))"

text \<open>
  \<open>(SELECT (60 + avg(level_ratings.rating) * count(level_ratings.rating)) * 1.0
     / (10 + count(level_ratings.rating)) FROM level_ratings
     WHERE level_ratings."levelId"=levels.id) as aux_rating\<close>:
  arithmetic on NULL is NULL.
\<close>

definition aux_rating :: "database \<Rightarrow> level_row \<Rightarrow> rat option" where
  "aux_rating db l =
     (let rs = ratings_of_level db (level_id l)
      in case sql_avg rs of
           None \<Rightarrow> None
         | Some a \<Rightarrow> Some ((60 + a * of_nat (length rs)) * 1 / (10 + of_nat (length rs))))"

text \<open>\<open>(SELECT avg(level_ratings.rating) FROM level_ratings WHERE ...) as rating\<close>\<close>

definition avg_rating :: "database \<Rightarrow> level_row \<Rightarrow> rat option" where
  "avg_rating db l = sql_avg (ratings_of_level db (level_id l))"

definition downloads :: "database \<Rightarrow> level_row \<Rightarrow> nat" where
  "downloads db l =
     length (filter (\<lambda>d. download_levelId d = level_id l) (level_downloads db))"

text \<open>
  \<open>(SELECT count(*) FROM records JOIN charts ON charts.id=records."chartId"
     WHERE charts."levelId"=levels.id) as plays\<close>
\<close>

definition plays :: "database \<Rightarrow> level_row \<Rightarrow> nat" where
  "plays db l =
     length (concat (map (\<lambda>r. filter (\<lambda>c. chart_id c = rec_chartId r \<and> chart_levelId c = level_id l)
       (charts db)) (records db)))"

definition charts_of_level :: "database \<Rightarrow> level_row \<Rightarrow> chart_row list" where
  "charts_of_level db l = filter (\<lambda>c. chart_levelId c = level_id l) (charts db)"

text \<open>
  The columns of \<open>keyMap\<close>. For \<open>difficulty\<close> the aggregate is \<open>max\<close> when the order
  parameter is exactly \<open>asc\<close>, and \<open>min\<close> otherwise. The lookup is that of the seven keys
  written in the object: the names that every JavaScript object inherits (\<open>constructor\<close>,
  \<open>toString\<close>, ...) are not keys here.
\<close>

datatype sort_column =
  CreationDate | ModificationDate | Duration | Downloads | Plays | AuxRating
  | MaxDifficulty | MinDifficulty

definition keyMap :: "string \<Rightarrow> string \<Rightarrow> sort_column option" where
  "keyMap sortOrder k =
     (if k = ''creation_date'' then Some CreationDate
      else if k = ''modification_date'' then Some ModificationDate
      else if k = ''duration'' then Some Duration
      else if k = ''downloads'' then Some Downloads
      else if k = ''plays'' then Some Plays
      else if k = ''rating'' then Some AuxRating
      else if k = ''difficulty''
        then Some (if sortOrder = ''asc'' then MaxDifficulty else MinDifficulty)
      else None)"

text \<open>The value of a sort column on the row of a level; \<open>None\<close> is NULL.\<close>

definition column_value :: "database \<Rightarrow> sort_column \<Rightarrow> level_row \<Rightarrow> real option" where
  "column_value db col l =
     (case col of
        CreationDate \<Rightarrow> Some (of_int (level_date_created l))
      | ModificationDate \<Rightarrow> Some (of_int (level_date_modified l))
      | Duration \<Rightarrow> Some (level_duration l)
      | Downloads \<Rightarrow> Some (of_nat (downloads db l))
      | Plays \<Rightarrow> Some (of_nat (plays db l))
      | AuxRating \<Rightarrow> map_option of_rat (aux_rating db l)
      | MaxDifficulty \<Rightarrow>
          (case map chart_difficulty (charts_of_level db l) of
             [] \<Rightarrow> None | d # ds \<Rightarrow> Some (fold max ds d))
      | MinDifficulty \<Rightarrow>
          (case map chart_difficulty (charts_of_level db l) of
             [] \<Rightarrow> None | d # ds \<Rightarrow> Some (fold min ds d)))"

text \<open>
  \<open>ORDER BY col dir NULLS LAST\<close>, followed by \<open>levels.date_created DESC\<close> when the second
  ordering is added: NULL after every value, values ascending or descending, then the
  later creation date first.
\<close>

definition order_key :: "database \<Rightarrow> sort_column \<Rightarrow> bool \<Rightarrow> bool \<Rightarrow> level_row
    \<Rightarrow> bool \<times> real \<times> int" where
  "order_key db col desc by_date l =
     (case column_value db col l of
        None \<Rightarrow> (True, 0, if by_date then - level_date_created l else 0)
      | Some v \<Rightarrow> (False, if desc then - v else v,
                   if by_date then - level_date_created l else 0))"

text \<open>
  The ordering of the query: by the column of \<open>keyMap\<close> when \<open>sort\<close> names one; by creation
  date in the direction asked when there is neither such a column nor a search; and none
  (the rows as they come) for a search without such a column.
\<close>

definition order_levels :: "database \<Rightarrow> string \<Rightarrow> levels_request \<Rightarrow> level_row list
    \<Rightarrow> level_row list" where
  "order_levels db sortOrder q rows =
     (let desc = (toUpperCase sortOrder = ''DESC'')
      in case (if truthy (q_sort q) then keyMap sortOrder (the (q_sort q)) else None) of
           Some col \<Rightarrow>
             sort_key (order_key db col desc (q_sort q \<noteq> Some ''creation_date'')) rows
         | None \<Rightarrow>
             if \<not> truthy (q_search q)
             then sort_key (\<lambda>l. if desc then - level_date_created l else level_date_created l) rows
             else rows)"

text \<open>
  The condition \<open>EXISTS (SELECT * FROM charts WHERE charts."levelId"=levels.id AND ...)\<close>,
  present when a type, a maximal or a minimal difficulty is asked for. Both difficulty
  conditions name the parameter \<open>:difficulty\<close>, which holds the value set last.
\<close>

definition charts_condition :: "database \<Rightarrow> levels_request \<Rightarrow> level_row \<Rightarrow> bool" where
  "charts_condition db q l =
     (let by_type = (truthy (q_type q) \<and> the (q_type q) \<in> set [''easy'', ''hard'', ''extreme'']);
          difficulty = (case q_min_difficulty q of Some d \<Rightarrow> Some d | None \<Rightarrow> q_max_difficulty q)
      in if by_type \<or> q_max_difficulty q \<noteq> None \<or> q_min_difficulty q \<noteq> None
         then list_ex (\<lambda>c.
                (if by_type then chart_type c = the (q_type q) else True)
                \<and> (if q_max_difficulty q \<noteq> None then chart_difficulty c \<le> the difficulty else True)
                \<and> (if q_min_difficulty q \<noteq> None then the difficulty \<le> chart_difficulty c else True))
              (charts_of_level db l)
         else True)"

text \<open>
  The two date conditions name the parameter \<open>:date\<close>, which holds the value set last.
\<close>

definition date_condition :: "levels_request \<Rightarrow> level_row \<Rightarrow> bool" where
  "date_condition q l =
     (let date = (case q_date_end q of Some d \<Rightarrow> Some d | None \<Rightarrow> q_date_start q)
      in (if q_date_start q \<noteq> None then the date \<le> level_date_created l else True)
       \<and> (if q_date_end q \<noteq> None then level_date_created l \<le> the date else True))"

definition featured_condition :: "levels_request \<Rightarrow> level_row \<Rightarrow> bool" where
  "featured_condition q l =
     (case q_featured q of
        None \<Rightarrow> True
      | Some v \<Rightarrow> if v = ''true'' then ''featured'' \<in> set (level_category l)
                  else ''featured'' \<notin> set (level_category l))"

definition tags_condition :: "levels_request \<Rightarrow> level_row \<Rightarrow> bool" where
  "tags_condition q l =
     (if truthy (q_tags q)
      then list_all (\<lambda>t. t \<in> set (level_tags l)) (map toLowerCase (split CHR ''|'' (the (q_tags q))))
      else True)"

text \<open>
  The full-text search is PostgreSQL's: \<open>fts keyword\<close> is the list of the ids of the
  levels that the inner join with \<open>levels_search\<close> keeps.
\<close>

definition search_condition :: "(string \<Rightarrow> int list) \<Rightarrow> levels_request \<Rightarrow> level_row \<Rightarrow> bool" where
  "search_condition fts q l =
     (if truthy (q_search q) then level_id l \<in> set (fts (the (q_search q))) else True)"

definition owner_condition :: "(string \<Rightarrow> bool) \<Rightarrow> database \<Rightarrow> levels_request \<Rightarrow> level_row \<Rightarrow> bool" where
  "owner_condition isUUID db q l =
     (if truthy (q_owner q)
      then (case find (\<lambda>u. user_id u = level_ownerId l) (users db) of
              None \<Rightarrow> False
            | Some u \<Rightarrow> if isUUID (the (q_owner q)) then user_id u = the (q_owner q)
                        else user_uid u = q_owner q)
      else True)"

text \<open>
  Unless the uploader asks for his own levels, only published levels that are not
  censored (or censored as \<open>ccp\<close>) are listed.
\<close>

definition is_public_query :: "current_user option \<Rightarrow> levels_request \<Rightarrow> bool" where
  "is_public_query user q =
     (case user of
        None \<Rightarrow> True
      | Some u \<Rightarrow> \<not> truthy (q_owner q) \<or> (q_owner q \<noteq> cu_uid u \<and> q_owner q \<noteq> Some (cu_id u)))"

definition level_matches :: "(string \<Rightarrow> bool) \<Rightarrow> (string \<Rightarrow> int list) \<Rightarrow> database
    \<Rightarrow> current_user option \<Rightarrow> levels_request \<Rightarrow> level_row \<Rightarrow> bool" where
  "level_matches isUUID fts db user q l =
     (charts_condition db q l \<and> date_condition q l \<and> featured_condition q l
      \<and> tags_condition q l \<and> search_condition fts q l \<and> owner_condition isUUID db q l
      \<and> (if is_public_query user q
          then level_published l \<and> (level_censored l = None \<or> level_censored l = Some ''ccp'')
          else True))"

text \<open>
  The entity returned for a level: the level, its charts as \<open>json_agg(charts ORDER BY
  charts.difficulty)\<close> gives them (one NULL for a level without chart), the mean rating
  (\<open>parseFloat(...) || null\<close>), the plays and the downloads.
\<close>

record level_entity =
  le_level :: level_row
  le_charts :: "chart_row option list"
  le_rating :: "rat option"
  le_plays :: nat
  le_downloads :: nat

definition to_entity :: "database \<Rightarrow> level_row \<Rightarrow> level_entity" where
  "to_entity db l =
     \<lparr>le_level = l,
      le_charts = (case charts_of_level db l of
                     [] \<Rightarrow> [None]
                   | cs \<Rightarrow> map Some (sort_key chart_difficulty cs)),
      le_rating = (if avg_rating db l = Some 0 then None else avg_rating db l),
      le_plays = plays db l,
      le_downloads = downloads db l\<rparr>"

text \<open>
  \<open>getLevels\<close>. The parameters \<open>page\<close>, \<open>limit\<close> and \<open>order\<close> default to 0, 30 and \<open>asc\<close>.
  The result is the response headers and the body, \<open>None\<close> for \<open>null\<close>.
\<close>

definition getLevels :: "(string \<Rightarrow> bool) \<Rightarrow> (string \<Rightarrow> int list) \<Rightarrow> database \<Rightarrow> headers
    \<Rightarrow> current_user option \<Rightarrow> rat option \<Rightarrow> rat option \<Rightarrow> string option \<Rightarrow> levels_request
    \<Rightarrow> error + headers \<times> level_entity list option" where
  "getLevels isUUID fts db ctx user page_param limit_param order_param q =
     (let pageNum = (case page_param of None \<Rightarrow> 0 | Some p \<Rightarrow> p);
          pageLimit0 = (case limit_param of None \<Rightarrow> 30 | Some l \<Rightarrow> l);
          sortOrder = (case order_param of None \<Rightarrow> ''asc'' | Some s \<Rightarrow> s);
          pageLimit = (if 200 < pageLimit0 then 200 else if pageLimit0 < 0 then 0 else pageLimit0)
      in if pageNum < 0 \<or> \<not> isInteger pageNum
         then Inl BadRequestError
         else
           (let matching = filter (level_matches isUUID fts db user q) (levels db);
                ctx1 = ctx(''Cache-Control'' \<mapsto>
                         Text (if is_public_query user q then ''public, max-age=60'' else ''private''));
                count = length matching;
                ctx2 = ctx1(''X-Total-Entries'' \<mapsto> Number (Finite (of_nat count)))
            in if pageLimit = 0
               then Inr (ctx2, None)
               else
                 (let ctx3 = ctx2(''X-Total-Page'' \<mapsto>
                                Number (Finite (of_int \<lceil>of_nat count / pageLimit\<rceil>)));
                      ctx4 = ctx3(''X-Current-Page'' \<mapsto> Number (Finite pageNum))
                  in case limit_offset pageLimit (pageLimit * pageNum)
                            (order_levels db sortOrder q matching) of
                       Inl e \<Rightarrow> Inl e
                     | Inr rows \<Rightarrow> Inr (ctx4, Some (map (to_entity db) rows)))))"

text \<open>The mean of the ratings of a level, and their number.\<close>

definition mean :: "rat list \<Rightarrow> rat" where
  "mean xs = sum_list xs / of_nat (length xs)"

text \<open>
  The order of a listing sorted by rating: a level may stand before another when it has
  a rating and the other has none; when both have one and its rating is the smaller one
  (the greater one in descending order); and, both having the same rating or none, when
  it was not created earlier.
\<close>

definition in_rating_order :: "database \<Rightarrow> bool \<Rightarrow> level_row \<Rightarrow> level_row \<Rightarrow> bool" where
  "in_rating_order db desc a b =
     (case (aux_rating db a, aux_rating db b) of
        (None, None) \<Rightarrow> level_date_created b \<le> level_date_created a
      | (None, Some y) \<Rightarrow> False
      | (Some x, None) \<Rightarrow> True
      | (Some x, Some y) \<Rightarrow>
          (if x = y then level_date_created b \<le> level_date_created a
           else if desc then y < x else x < y))"

section \<open>LevelController.getRatings and updateRatings\<close>

text \<open>
  The answer of \<open>getRatings\<close>: the mean (\<open>parseFloat\<close>, no value over no rating), the
  number of ratings, how many ratings there are of each value from 1 to 10, and the
  rating of the asking user. The field \<open>rating\<close> is absent (\<open>None\<close>), \<open>null\<close>
  (\<open>Some None\<close>) or a number.
\<close>

record ratings_summary =
  rs_average :: "rat option"
  rs_total :: nat
  rs_distribution :: "nat list"
  rs_rating :: "rat option option"

text \<open>
  Redis keeps, under a key, a value and the time at which it expires; the clock is the
  number of seconds \<open>now\<close> that every operation is given. The value cached for the
  ratings is the JSON text of a summary: the summary itself is kept here.
\<close>

type_synonym redis = "string \<rightharpoonup> ratings_summary \<times> nat"

definition getAsync :: "redis \<Rightarrow> nat \<Rightarrow> string \<Rightarrow> ratings_summary option" where
  "getAsync c now k =
     (case c k of None \<Rightarrow> None | Some (v, expiry) \<Rightarrow> if now < expiry then Some v else None)"

definition setexAsync :: "redis \<Rightarrow> nat \<Rightarrow> string \<Rightarrow> nat \<Rightarrow> ratings_summary \<Rightarrow> redis" where
  "setexAsync c now k seconds v = c(k \<mapsto> (v, now + seconds))"

definition delAsync :: "redis \<Rightarrow> string \<Rightarrow> redis" where
  "delAsync c k = c(k := None)"

record server =
  st_db :: database
  st_cache :: redis

definition levelRatingCacheKey :: string where
  "levelRatingCacheKey = ''cytoid:level:ratings:''"

text \<open>
  \<open>parseInt(text, 10)\<close> of the text of a number in plain decimal notation (digits, and a
  fraction after a point) drops the fraction. A number that JavaScript prints with an
  exponent is outside this definition.
\<close>

definition parseInt :: "rat \<Rightarrow> int" where
  "parseInt x = (if 0 \<le> x then \<lfloor>x\<rfloor> else \<lceil>x\<rceil>)"

text \<open>
  \<open>array(SELECT coalesce(data.count, 0) FROM generate_series(1, 10) ... LEFT OUTER JOIN
  (SELECT ratings.rating, count(ratings.rating) FROM ratings GROUP BY ratings.rating) data
  ON data.rating = fullrange.items)\<close>
\<close>

definition distribution :: "rating_row list \<Rightarrow> nat list" where
  "distribution ratings =
     map (\<lambda>i. length (filter (\<lambda>r. rating_value r = of_nat i) ratings)) [1..<11]"

text \<open>
  \<open>getRatings\<close>. With a cached value, the answer is that value, to which the rating of the
  user (the first row of the query, or \<open>null\<close>) is added when a user is given. Without one,
  the summary is computed over the CTE \<open>ratings\<close> (the ratings of the level), stored for
  3600 seconds without the user's rating, and returned with the user's rating when that
  is truthy.
\<close>

definition getRatings :: "server \<Rightarrow> nat \<Rightarrow> string \<Rightarrow> current_user option
    \<Rightarrow> (error + ratings_summary) \<times> server" where
  "getRatings st now ident user =
     (case getAsync (st_cache st) now (levelRatingCacheKey @ ident) of
        Some cacheVal \<Rightarrow>
          (case user of
             Some u \<Rightarrow>
               (case level_id_of_uid (st_db st) ident of
                  Inl e \<Rightarrow> (Inl e, st)
                | Inr lid \<Rightarrow>
                    (let rows = filter (\<lambda>r. rating_userId r = cu_id u \<and> Some (rating_levelId r) = lid)
                                  (level_ratings (st_db st));
                         rating = (case rows of [] \<Rightarrow> None | a # _ \<Rightarrow> Some (rating_value a))
                     in (Inr (cacheVal\<lparr>rs_rating := Some rating\<rparr>), st)))
           | None \<Rightarrow> (Inr cacheVal, st))
      | None \<Rightarrow>
          (case level_id_of_uid (st_db st) ident of
             Inl e \<Rightarrow> (Inl e, st)
           | Inr lid \<Rightarrow>
               (let ratings = filter (\<lambda>r. Some (rating_levelId r) = lid) (level_ratings (st_db st))
                in case (case user of
                           None \<Rightarrow> Inr None
                         | Some u \<Rightarrow> scalar (map rating_value
                             (filter (\<lambda>r. rating_userId r = cu_id u) ratings))) of
                     Inl e \<Rightarrow> (Inl e, st)
                   | Inr own \<Rightarrow>
                       (let a = \<lparr>rs_average = sql_avg (map rating_value ratings),
                                 rs_total = length ratings,
                                 rs_distribution = distribution ratings,
                                 rs_rating = None\<rparr>;
                            rating = (case own of None \<Rightarrow> 0 | Some r \<Rightarrow> parseInt r);
                            st' = st\<lparr>st_cache :=
                                     setexAsync (st_cache st) now (levelRatingCacheKey @ ident) 3600 a\<rparr>
                        in (Inr (if rating \<noteq> 0 then a\<lparr>rs_rating := Some (Some (of_int rating))\<rparr>
                                 else a), st')))))"

text \<open>
  \<open>INSERT ... ON CONFLICT ON CONSTRAINT "level_ratings_levelId_userId_key" DO UPDATE SET
  "rating" = :rating\<close>: the rating of the user for the level is replaced when there is
  one, and added otherwise.
\<close>

definition upsert :: "int \<Rightarrow> string \<Rightarrow> rat \<Rightarrow> rating_row list \<Rightarrow> rating_row list" where
  "upsert lid uid v rows =
     (if list_ex (\<lambda>r. rating_levelId r = lid \<and> rating_userId r = uid) rows
      then map (\<lambda>r. if rating_levelId r = lid \<and> rating_userId r = uid
                     then r\<lparr>rating_value := v\<rparr> else r) rows
      else rows @ [\<lparr>rating_levelId = lid, rating_userId = uid, rating_value = v\<rparr>])"

text \<open>
  The statement that \<open>updateRatings\<close> runs on the database. A rating that is missing or
  zero is falsy. The type of the column of the rating is declared in \<open>models/level\<close> and
  left open here: \<open>rating_column\<close> gives the value that the column stores for a number,
  and \<open>None\<close> when PostgreSQL rejects the number for the column's type. A level that
  does not exist gives a NULL \<open>levelId\<close>, which the table rejects (error 23502).
\<close>

definition write_rating :: "(rat \<Rightarrow> rat option) \<Rightarrow> database \<Rightarrow> string \<Rightarrow> current_user
    \<Rightarrow> rat option \<Rightarrow> error + database" where
  "write_rating rating_column db ident user rating =
     (if rating = None \<or> rating = Some 0
      then (case level_id_of_uid db ident of
              Inl e \<Rightarrow> Inl e
            | Inr lid \<Rightarrow>
                (let affected = length (filter
                       (\<lambda>r. Some (rating_levelId r) = lid \<and> rating_userId r = cu_id user)
                       (level_ratings db))
                 in if affected = 0 then Inl NotFoundError
                    else Inr (db\<lparr>level_ratings := filter
                       (\<lambda>r. \<not> (Some (rating_levelId r) = lid \<and> rating_userId r = cu_id user))
                       (level_ratings db)\<rparr>)))
      else if 10 < the rating \<or> the rating \<le> 0 then Inl BadRequestError
      else (case rating_column (the rating) of
              None \<Rightarrow> Inl QueryFailedError
            | Some v \<Rightarrow>
                (case level_id_of_uid db ident of
                   Inl e \<Rightarrow> Inl e
                 | Inr None \<Rightarrow> Inl NotFoundError
                 | Inr (Some lid) \<Rightarrow>
                     Inr (db\<lparr>level_ratings := upsert lid (cu_id user) v (level_ratings db)\<rparr>))))"

text \<open>
  \<open>updateRatings\<close>: after the statement has succeeded, the cache entry of the level is
  deleted and the answer is that of \<open>getRatings\<close>.
\<close>

definition updateRatings :: "(rat \<Rightarrow> rat option) \<Rightarrow> server \<Rightarrow> nat \<Rightarrow> string \<Rightarrow> current_user
    \<Rightarrow> rat option \<Rightarrow> (error + ratings_summary) \<times> server" where
  "updateRatings rating_column st now ident user rating =
     (case write_rating rating_column (st_db st) ident user rating of
        Inl e \<Rightarrow> (Inl e, st)
      | Inr db' \<Rightarrow>
          getRatings \<lparr>st_db = db', st_cache = delAsync (st_cache st) (levelRatingCacheKey @ ident)\<rparr>
            now ident (Some user))"

section \<open>ProfileController.personalRating and exp\<close>

text \<open>
  The statements of a query are evaluated on every row: the first failure is the failure
  of the query.
\<close>

fun collect :: "(error + 'a) list \<Rightarrow> error + 'a list" where
  "collect [] = Inr []"
| "collect (x # xs) =
     (case x of
        Inl e \<Rightarrow> Inl e
      | Inr v \<Rightarrow> (case collect xs of Inl e \<Rightarrow> Inl e | Inr vs \<Rightarrow> Inr (v # vs)))"

text \<open>
  The \<open>CASE\<close> of \<open>personalRating\<close>. \<open>|/\<close> is the square root, which PostgreSQL refuses
  to take of a negative number; \<open>log\<close> is the logarithm to base 10.
\<close>

definition performance_rating :: "real \<Rightarrow> error + real" where
  "performance_rating a =
     (if a < 0.7
        then (if a / 0.7 < 0 then Inl QueryFailedError else Inr (sqrt (a / 0.7) * 0.5))
      else if a < 0.97 then Inr (0.7 - 0.2 * log 10 ((1.0 - a) / 0.03))
      else if a < 0.997 then Inr (0.7 - 0.16 * log 10 ((1.0 - a) / 0.03))
      else if a < 0.9997 then Inr (0.78 - 0.08 * log 10 ((1.0 - a) / 0.03))
      else Inr (a * 200.0 - 199.0))"

text \<open>
  \<open>SELECT avg(performance_rating * difficulty_rating) as rating FROM (select ... FROM
  records as r JOIN charts c ON r."chartId" = c.id WHERE r."ownerId"=$1) as v\<close>; the answer
  is the column \<open>rating\<close> of the only row, \<open>None\<close> for NULL.
\<close>

definition personalRating :: "database \<Rightarrow> string \<Rightarrow> error + real option" where
  "personalRating db uuid =
     (case collect
        [case performance_rating (rec_accuracy r) of
           Inl e \<Rightarrow> Inl e
         | Inr p \<Rightarrow> Inr (p * chart_difficulty c).
         r \<leftarrow> records db, c \<leftarrow> charts db, rec_chartId r = chart_id c, rec_ownerId r = uuid] of
        Inl e \<Rightarrow> Inl e
      | Inr v \<Rightarrow> Inr (sql_avg v))"

text \<open>
  The CTE \<open>scores\<close> of \<open>exp\<close>: for every record of the user on a chart of difficulty between
  1 and 16, the base, the score and the level.
\<close>

record score_row =
  score_base :: real
  score_score :: int
  score_level :: int

definition scores :: "database \<Rightarrow> string \<Rightarrow> score_row list" where
  "scores db uuid =
     [\<lparr>score_base = chart_notesCount c * (chart_difficulty c / 15)
                      + level_duration l / 60 * 100 * (if rec_ranked r then 1 else 0.5),
       score_score = rec_score r,
       score_level = level_id l\<rparr>.
      r \<leftarrow> records db, c \<leftarrow> charts db, rec_chartId r = chart_id c,
      l \<leftarrow> levels db, chart_levelId c = level_id l,
      rec_ownerId r = uuid, 1 \<le> chart_difficulty c \<and> chart_difficulty c \<le> 16]"

text \<open>
  The CTE \<open>chart_scores\<close>: for every level of \<open>scores\<close>, the greatest
  \<open>pow(scores.score / 1000000, 2) * (scores.base * 1.5)\<close>.
\<close>

definition chart_scores :: "score_row list \<Rightarrow> real list" where
  "chart_scores ss =
     map (\<lambda>lv. case [(real_of_int (score_score s) / 1000000) ^ 2 * (score_base s * 1.5).
                       s \<leftarrow> ss, score_level s = lv] of
                  [] \<Rightarrow> 0
                | x # xs \<Rightarrow> fold max xs x)
       (remdups (map score_level ss))"

text \<open>
  The answer of \<open>exp\<close>. A sum is NULL over no rows, and \<open>null\<close> counts as 0 in the
  JavaScript sum; \<open>Math.sqrt\<close> of a negative number is NaN (\<open>None\<close>).
\<close>

record exp_result =
  basicExp :: "real option"
  levelExp :: "real option"
  totalExp :: real
  currentLevel :: "real option"
  nextLevelExp :: "real option"

text \<open>
  \<open>SELECT sum(sqrt(scores.score / 1000000) * scores.base) as basic_exp,
  sum(chart_scores.score) as level_exp FROM scores, chart_scores\<close>: both sums run over
  the pairs of a row of \<open>scores\<close> and a row of \<open>chart_scores\<close>.
\<close>

definition exp_of :: "database \<Rightarrow> string \<Rightarrow> error + exp_result" where
  "exp_of db uuid =
     (let ss = scores db uuid;
          cs = chart_scores ss;
          pairs = [(s, c). s \<leftarrow> ss, c \<leftarrow> cs]
      in if list_ex (\<lambda>(s, c). real_of_int (score_score s) / 1000000 < 0) pairs
         then Inl QueryFailedError
         else
           (let basic_exp = (if pairs = [] then None
                   else Some (sum_list (map (\<lambda>(s, c).
                     sqrt (real_of_int (score_score s) / 1000000) * score_base s) pairs)));
                level_exp = (if pairs = [] then None
                   else Some (sum_list (map (\<lambda>(s, c). c) pairs)));
                total = (case basic_exp of None \<Rightarrow> 0 | Some b \<Rightarrow> b)
                      + (case level_exp of None \<Rightarrow> 0 | Some v \<Rightarrow> v);
                level = (if 6 * total + 400 < 0 then None
                         else Some (1 / 30 * (sqrt (6 * total + 400) + 20) + 1))
            in Inr \<lparr>basicExp = basic_exp, levelExp = level_exp, totalExp = total,
                    currentLevel = level,
                    nextLevelExp = map_option (\<lambda>v. 150 * (v * v) - 200 * v) level\<rparr>))"

text \<open>
  The performance rating as a function of the accuracy, piece by piece.
\<close>

definition rating_of_accuracy :: "real \<Rightarrow> real" where
  "rating_of_accuracy a =
     (if a < 0.7 then sqrt (a / 0.7) * 0.5
      else if 0.7 \<le> a \<and> a < 0.97 then 0.7 - 0.2 * log 10 ((1 - a) / 0.03)
      else if 0.97 \<le> a \<and> a < 0.997 then 0.7 - 0.16 * log 10 ((1 - a) / 0.03)
      else if 0.997 \<le> a \<and> a < 0.9997 then 0.78 - 0.08 * log 10 ((1 - a) / 0.03)
      else a * 200 - 199)"

text \<open>
  The average, over the records of a user, of the performance rating of the record times
  the difficulty of its chart.
\<close>

definition average_rating :: "database \<Rightarrow> string \<Rightarrow> real option" where
  "average_rating db uuid =
     sql_avg (map (\<lambda>r. rating_of_accuracy (rec_accuracy r)
                      * (case find (\<lambda>c. chart_id c = rec_chartId r) (charts db) of
                           None \<Rightarrow> 0 | Some c \<Rightarrow> chart_difficulty c))
                (filter (\<lambda>r. rec_ownerId r = uuid) (records db)))"

text \<open>
  The two sums of experience, each over its own rows: the basic experience over the rows
  of \<open>scores\<close>, the level experience over the greatest values per level.
\<close>

definition sum_basic_exp :: "database \<Rightarrow> string \<Rightarrow> real" where
  "sum_basic_exp db uuid =
     sum_list (map (\<lambda>s. sqrt (real_of_int (score_score s) / 1000000) * score_base s)
       (scores db uuid))"

definition sum_level_exp :: "database \<Rightarrow> string \<Rightarrow> real" where
  "sum_level_exp db uuid = sum_list (chart_scores (scores db uuid))"

section \<open>A small database\<close>

text \<open>
  Three users, two levels with one chart each, and a few records: alice and bob have the
  same score on the hard chart of level \<open>lv\<close>, bob's being the earlier one; alice also has
  an unranked record with a higher score; carol has a full score on both levels, the one
  on level \<open>lv\<close> unranked. Alice
  and bob have rated level \<open>lv\<close>; nobody has rated level \<open>lw\<close>.
\<close>

definition alice :: user_row where
  "alice = \<lparr>user_id = ''ua'', user_uid = Some ''alice'', user_name = ''Alice''\<rparr>"

definition bob :: user_row where
  "bob = \<lparr>user_id = ''ub'', user_uid = Some ''bob'', user_name = ''Bob''\<rparr>"

definition carol :: user_row where
  "carol = \<lparr>user_id = ''uc'', user_uid = Some ''carol'', user_name = ''Carol''\<rparr>"

definition example_record :: "int \<Rightarrow> string \<Rightarrow> int \<Rightarrow> int \<Rightarrow> int \<Rightarrow> bool \<Rightarrow> record_row" where
  "example_record i ownerId chartId score date ranked =
     \<lparr>rec_id = i, rec_ownerId = ownerId, rec_chartId = chartId, rec_score = score,
      rec_accuracy = 1, rec_date = date, rec_ranked = ranked\<rparr>"

definition example_level :: "int \<Rightarrow> string \<Rightarrow> level_row" where
  "example_level i uid =
     \<lparr>level_id = i, level_uid = uid, level_ownerId = ''ua'', level_duration = 60,
      level_date_created = i, level_date_modified = i, level_published = True,
      level_censored = None, level_category = [], level_tags = []\<rparr>"

definition example_db :: database where
  "example_db =
     \<lparr>users = [alice, bob, carol],
      levels = [example_level 1 ''lv'', example_level 2 ''lw''],
      charts =
        [\<lparr>chart_id = 7, chart_levelId = 1, chart_type = ''hard'', chart_difficulty = 15,
          chart_notesCount = 100\<rparr>,
         \<lparr>chart_id = 8, chart_levelId = 2, chart_type = ''hard'', chart_difficulty = 15,
          chart_notesCount = 200\<rparr>],
      records =
        [example_record 1 ''ua'' 7 900000 5 True,
         example_record 2 ''ub'' 7 900000 3 True,
         example_record 3 ''ua'' 7 950000 9 False,
         example_record 4 ''ub'' 7 800000 1 True,
         example_record 5 ''uc'' 8 1000000 2 True,
         example_record 6 ''uc'' 7 1000000 7 False],
      level_ratings =
        [\<lparr>rating_levelId = 1, rating_userId = ''ua'', rating_value = 8\<rparr>,
         \<lparr>rating_levelId = 1, rating_userId = ''ub'', rating_value = 10\<rparr>],
      level_downloads = []\<rparr>"

definition example_leaderboard :: "lb_entry list" where
  "example_leaderboard =
     [\<lparr>lb_record = example_record 2 ''ub'' 7 900000 3 True, lb_owner = Some bob, lb_rank = 1\<rparr>,
      \<lparr>lb_record = example_record 1 ''ua'' 7 900000 5 True, lb_owner = Some alice, lb_rank = 2\<rparr>]"

text \<open>A request for the levels sorted by rating, without any filter.\<close>

definition example_request :: levels_request where
  "example_request =
     \<lparr>q_sort = Some ''rating'', q_search = None, q_type = None, q_max_difficulty = None,
      q_min_difficulty = None, q_date_start = None, q_date_end = None, q_featured = None,
      q_tags = None, q_owner = None\<rparr>"

definition example_entities :: "level_entity list" where
  "example_entities =
     [to_entity example_db (example_level 1 ''lv''), to_entity example_db (example_level 2 ''lw'')]"

text \<open>The same database once carol has rated level \<open>lw\<close> with 10.\<close>

definition example_listing_db :: database where
  "example_listing_db =
     example_db\<lparr>level_ratings :=
       [\<lparr>rating_levelId = 1, rating_userId = ''ua'', rating_value = 8\<rparr>,
        \<lparr>rating_levelId = 1, rating_userId = ''ub'', rating_value = 10\<rparr>,
        \<lparr>rating_levelId = 2, rating_userId = ''uc'', rating_value = 10\<rparr>]\<rparr>"

text \<open>The server with this database and an empty cache, and alice as the caller.\<close>

definition example_server :: server where
  "example_server = \<lparr>st_db = example_db, st_cache = Map.empty\<rparr>"

definition example_user :: current_user where
  "example_user = \<lparr>cu_id = ''ua'', cu_uid = Some ''alice''\<rparr>"

text \<open>
  Two columns for the rating: one that stores every number as given, and one that
  stores integers only.
\<close>

definition numeric_column :: "rat \<Rightarrow> rat option" where
  "numeric_column r = Some r"

definition integer_column :: "rat \<Rightarrow> rat option" where
  "integer_column r = (if isInteger r then Some r else None)"

text \<open>
  The summary of the ratings of level \<open>lv\<close>, the server once it has cached that summary
  at time 5, and the summary and the server after alice has then changed her rating to 3
  at time 100.
\<close>

definition example_summary :: ratings_summary where
  "example_summary =
     \<lparr>rs_average = Some 9, rs_total = 2, rs_distribution = [0, 0, 0, 0, 0, 0, 0, 1, 0, 1],
      rs_rating = None\<rparr>"

definition example_cached_server :: server where
  "example_cached_server =
     \<lparr>st_db = example_db,
      st_cache = [levelRatingCacheKey @ ''lv'' \<mapsto> (example_summary, 3605)]\<rparr>"

definition example_rated_summary :: ratings_summary where
  "example_rated_summary =
     \<lparr>rs_average = Some (13 / 2), rs_total = 2,
      rs_distribution = [0, 0, 1, 0, 0, 0, 0, 0, 0, 1], rs_rating = Some (Some 3)\<rparr>"

definition example_rated_db :: database where
  "example_rated_db =
     example_db\<lparr>level_ratings :=
       [\<lparr>rating_levelId = 1, rating_userId = ''ua'', rating_value = 3\<rparr>,
        \<lparr>rating_levelId = 1, rating_userId = ''ub'', rating_value = 10\<rparr>]\<rparr>"

section \<open>Properties of the leaderboard query\<close>

lemma set_distinct_on: "set (distinct_on k xs) \<subseteq> set xs"
  by (induction k xs rule: distinct_on.induct) auto

lemma keys_distinct_on: "k ` set (distinct_on k xs) = k ` set xs"
  by (induction k xs rule: distinct_on.induct) auto

lemma hd_distinct_on: "xs \<noteq> [] \<Longrightarrow> hd (distinct_on k xs) = hd xs"
  by (induction k xs rule: distinct_on.induct) auto

lemma distinct_on_distinct:
  "sorted (map k xs) \<Longrightarrow> distinct (map k (distinct_on k xs))"
proof (induction k xs rule: distinct_on.induct)
  case (3 k x y xs)
  show ?case
  proof (cases "k x = k y")
    case True
    with 3 show ?thesis by simp
  next
    case False
    have "k x \<notin> k ` set (distinct_on k (y # xs))"
    proof
      assume "k x \<in> k ` set (distinct_on k (y # xs))"
      then have "k x \<in> k ` set (y # xs)" by (simp only: keys_distinct_on)
      then obtain z where z: "z \<in> set (y # xs)" "k z = k x" by (metis imageE)
      from 3(3) have "k x \<le> k y" by simp
      moreover from 3(3) z(1) have "k y \<le> k z" by auto
      ultimately show False using z(2) False by simp
    qed
    with 3 False show ?thesis by simp
  qed
qed simp_all

lemma distinct_on_first:
  "sorted (map (\<lambda>r. (k r, s r)) xs) \<Longrightarrow> x \<in> set (distinct_on k xs) \<Longrightarrow> y \<in> set xs
     \<Longrightarrow> k y = k x \<Longrightarrow> s x \<le> s y"
proof (induction k xs arbitrary: x y rule: distinct_on.induct)
  case (1 k)
  then show ?case by simp
next
  case (2 k a)
  then show ?case by simp
next
  case (3 k a b xs)
  from 3(3) have ab: "(k a, s a) \<le> (k b, s b)" by simp
  from 3(3) have sa: "sorted (map (\<lambda>r. (k r, s r)) (a # xs))" by simp
  from 3(3) have sb: "sorted (map (\<lambda>r. (k r, s r)) (b # xs))" by simp
  from 3(3) have a_min: "\<And>z. z \<in> set (a # b # xs) \<Longrightarrow> (k a, s a) \<le> (k z, s z)" by auto
  from 3(3) have b_min: "\<And>z. z \<in> set (b # xs) \<Longrightarrow> (k b, s b) \<le> (k z, s z)" by auto
  show ?case
  proof (cases "k a = k b")
    case True
    with 3(4) have x: "x \<in> set (distinct_on k (a # xs))" by simp
    show ?thesis
    proof (cases "y = b")
      case True
      have "s x \<le> s a" using "3.IH"(1)[OF \<open>k a = k b\<close> sa x, of a] 3(6) \<open>k a = k b\<close> True by simp
      moreover have "s a \<le> s b" using ab \<open>k a = k b\<close> by (simp add: less_eq_prod_def)
      ultimately show ?thesis using True by simp
    next
      case False
      with 3(5) have "y \<in> set (a # xs)" by auto
      then show ?thesis using "3.IH"(1)[OF True sa x _ 3(6)] by simp
    qed
  next
    case False
    with 3(4) have x: "x = a \<or> x \<in> set (distinct_on k (b # xs))" by simp
    then show ?thesis
    proof
      assume "x = a"
      then show ?thesis using a_min[OF 3(5)] 3(6) by (simp add: less_eq_prod_def)
    next
      assume xin: "x \<in> set (distinct_on k (b # xs))"
      then have xb: "x \<in> set (b # xs)" using set_distinct_on by fastforce
      show ?thesis
      proof (cases "y = a")
        case True
        have "k a \<le> k b" using ab by (auto simp: less_eq_prod_def)
        moreover have "k b \<le> k x" using b_min[OF xb] by (auto simp: less_eq_prod_def)
        ultimately have "k a = k b" using 3(6) True by simp
        with False show ?thesis by simp
      next
        case False
        with 3(5) have "y \<in> set (b # xs)" by auto
        then show ?thesis using "3.IH"(2)[OF \<open>k a \<noteq> k b\<close> sb xin _ 3(6)] by simp
      qed
    qed
  qed
qed

lemma sorted_last_max:
  "sorted (map k ys) \<Longrightarrow> z \<in> set ys \<Longrightarrow> k z \<le> k (last ys)"
  by (induction ys) auto

lemma rank_over_sorted:
  "sorted (map k (ys @ xs)) \<Longrightarrow>
   prev = (if ys = [] then None
           else Some (k (last ys), Suc (length (filter (\<lambda>y. k y < k (last ys)) ys)))) \<Longrightarrow>
   rank_over k (Suc (length ys)) prev xs =
     map (\<lambda>x. (x, Suc (length (filter (\<lambda>y. k y < k x) (ys @ xs))))) xs"
proof (induction xs arbitrary: ys prev)
  case Nil
  then show ?case by simp
next
  case (Cons x xs)
  have srt: "sorted (map k ((ys @ [x]) @ xs))" using Cons.prems(1) by simp
  have ge: "\<And>z. z \<in> set (x # xs) \<Longrightarrow> k x \<le> k z"
    using Cons.prems(1) by (auto simp: sorted_append)
  have le: "\<And>z. z \<in> set ys \<Longrightarrow> k z \<le> k x"
    using Cons.prems(1) by (auto simp: sorted_append)
  have "\<forall>z\<in>set (x # xs). \<not> k z < k x"
    using ge leD by blast
  then have tail0: "filter (\<lambda>y. k y < k x) (x # xs) = []"
    by (simp only: filter_empty_conv) 
  define r where "r = Suc (length (filter (\<lambda>y. k y < k x) ys))"
  have r_all: "r = Suc (length (filter (\<lambda>y. k y < k x) (ys @ x # xs)))"
    using tail0 by (simp add: r_def)
  have r_pre: "r = Suc (length (filter (\<lambda>y. k y < k x) (ys @ [x])))"
    by (simp add: r_def)
  have cur: "(case prev of None \<Rightarrow> Suc (length ys)
               | Some (kp, rp) \<Rightarrow> if kp = k x then rp else Suc (length ys)) = r"
  proof (cases "ys = []")
    case True
    then show ?thesis using Cons.prems(2) by (simp add: r_def)
  next
    case False
    then have lst: "last ys \<in> set ys" by simp
    show ?thesis
    proof (cases "k (last ys) = k x")
      case True
      then show ?thesis using Cons.prems(2) False by (simp add: r_def)
    next
      case ne: False
      have "k (last ys) < k x" using le[OF lst] ne by simp
      moreover have "\<And>z. z \<in> set ys \<Longrightarrow> k z \<le> k (last ys)"
        using Cons.prems(1) by (simp add: sorted_append sorted_last_max)
      ultimately have "\<forall>z\<in>set ys. k z < k x"
        using le_less_trans by blast
      then have "filter (\<lambda>y. k y < k x) ys = ys"
        by (simp only: filter_id_conv)
      then show ?thesis using Cons.prems(2) False ne by (simp add: r_def)
    qed
  qed
  have "rank_over k (Suc (length (ys @ [x]))) (Some (k x, r)) xs =
     map (\<lambda>z. (z, Suc (length (filter (\<lambda>y. k y < k z) ((ys @ [x]) @ xs))))) xs"
    by (rule Cons.IH[OF srt]) (simp add: r_pre)
  then show ?case using cur r_all by (simp add: Let_def)
qed

lemma key_less_precedes: "score_date_key a < score_date_key b \<longleftrightarrow> precedes a b"
  by (auto simp: score_date_key_def precedes_def less_prod_def)

lemma key_le_precedes: "score_date_key a \<le> score_date_key b \<longleftrightarrow> \<not> precedes b a"
  by (auto simp: score_date_key_def precedes_def less_eq_prod_def)

lemma insort_key_map:
  "insort_key f (g x) (map g xs) = map g (insort_key (\<lambda>a. f (g a)) x xs)"
  by (induction xs) auto

lemma sort_key_map: "sort_key f (map g xs) = map g (sort_key (\<lambda>a. f (g a)) xs)"
  by (induction xs) (auto simp: insort_key_map)

lemma sorted_joined:
  "sort_key (\<lambda>(r, u). score_date_key r) (map (join_owner db) xs) =
     map (join_owner db) (sort_key score_date_key xs)"
  by (simp add: sort_key_map join_owner_def)

lemma leaderboard_rows_eq:
  "leaderboard_rows db cid =
     map (\<lambda>r. \<lparr>lb_record = r, lb_owner = snd (join_owner db r),
               lb_rank = Suc (length (filter (\<lambda>y. precedes y r)
                 (sort_key score_date_key (best_records db cid))))\<rparr>)
       (sort_key score_date_key (best_records db cid))"
proof -
  let ?S = "sort_key score_date_key (best_records db cid)"
  let ?J = "map (join_owner db) ?S"
  let ?K = "\<lambda>(r, u). score_date_key r"
  have "sorted (map ?K ([] @ ?J))"
    using sorted_sort_key[of "?K" "map (join_owner db) (best_records db cid)"]
    by (simp only: sorted_joined append_Nil)
  then have "rank_over ?K (Suc (length ([]::(record_row \<times> user_row option) list))) None ?J =
     map (\<lambda>x. (x, Suc (length (filter (\<lambda>y. ?K y < ?K x) ([] @ ?J))))) ?J"
    by (rule rank_over_sorted) simp
  then have ro: "rank_over ?K 1 None ?J =
     map (\<lambda>x. (x, Suc (length (filter (\<lambda>y. ?K y < ?K x) ?J)))) ?J"
    by simp
  have cnt: "\<And>r. length (filter (\<lambda>y. ?K y < ?K (join_owner db r)) ?J) =
      length (filter (\<lambda>y. precedes y r) ?S)"
    by (simp add: filter_map join_owner_def key_less_precedes o_def)
  show ?thesis
    unfolding leaderboard_rows_def sorted_joined ro
    by (simp add: cnt o_def join_owner_def key_less_precedes filter_map)
qed

lemma lb_records: "map lb_record (leaderboard_rows db cid) = sort_key score_date_key (best_records db cid)"
  by (simp add: leaderboard_rows_eq o_def)

lemma length_filter_mono:
  "(\<And>x. x \<in> set xs \<Longrightarrow> P x \<Longrightarrow> Q x) \<Longrightarrow> length (filter P xs) \<le> length (filter Q xs)"
  by (induction xs) auto

lemma length_filter_less:
  "(\<And>x. x \<in> set xs \<Longrightarrow> P x \<Longrightarrow> Q x) \<Longrightarrow> a \<in> set xs \<Longrightarrow> Q a \<Longrightarrow> \<not> P a \<Longrightarrow>
     length (filter P xs) < length (filter Q xs)"
proof (induction xs)
  case Nil
  then show ?case by simp
next
  case (Cons x xs)
  have mono: "length (filter P xs) \<le> length (filter Q xs)"
    using Cons.prems(1) by (intro length_filter_mono) auto
  show ?case
  proof (cases "a = x")
    case True
    then show ?thesis using Cons.prems mono by simp
  next
    case False
    then have "length (filter P xs) < length (filter Q xs)"
      using Cons.IH Cons.prems by auto
    then show ?thesis using Cons.prems(1)[of x] by auto
  qed
qed

lemma precedes_trans: "precedes a b \<Longrightarrow> precedes b c \<Longrightarrow> precedes a c"
  by (auto simp: precedes_def)

lemma precedes_irrefl: "\<not> precedes a a"
  by (simp add: precedes_def)

lemma precedes_total_trans: "\<not> precedes a b \<Longrightarrow> precedes c b \<Longrightarrow> precedes c a"
  by (auto simp: precedes_def)

lemma sorted_fst_key:
  "sorted (map (\<lambda>r. (k r, s r)) xs) \<Longrightarrow> sorted (map k xs)"
  by (induction xs) (auto simp: less_eq_prod_def)

lemma distinct_map_sort_key:
  "distinct (map f (sort_key k xs)) = distinct (map f xs)"
  by (simp add: distinct_map)

lemma best_records_subset:
  "set (best_records db cid) \<subseteq> {r \<in> set (records db). Some (rec_chartId r) = cid \<and> rec_ranked r}"
proof -
  have "set (best_records db cid) \<subseteq>
      set (sort_key (\<lambda>r. (rec_ownerId r, score_date_key r))
          (filter (\<lambda>r. Some (rec_chartId r) = cid \<and> rec_ranked r) (records db)))"
    unfolding best_records_def by (rule set_distinct_on)
  then show ?thesis by auto
qed

lemma best_records_distinct: "distinct (map rec_ownerId (best_records db cid))"
  unfolding best_records_def
  by (rule distinct_on_distinct, rule sorted_fst_key[where s = score_date_key], rule sorted_sort_key)

lemma best_records_owners:
  "rec_ownerId ` set (best_records db cid) =
     rec_ownerId ` {r \<in> set (records db). Some (rec_chartId r) = cid \<and> rec_ranked r}"
  unfolding best_records_def keys_distinct_on by simp

lemma best_records_best:
  assumes "x \<in> set (best_records db cid)" and "y \<in> set (records db)"
    and "Some (rec_chartId y) = cid" and "rec_ranked y" and "rec_ownerId y = rec_ownerId x"
  shows "\<not> precedes y x"
proof -
  let ?F = "filter (\<lambda>r. Some (rec_chartId r) = cid \<and> rec_ranked r) (records db)"
  let ?S = "sort_key (\<lambda>r. (rec_ownerId r, score_date_key r)) ?F"
  have "sorted (map (\<lambda>r. (rec_ownerId r, score_date_key r)) ?S)" by (rule sorted_sort_key)
  moreover have "x \<in> set (distinct_on rec_ownerId ?S)" using assms(1) by (simp add: best_records_def)
  moreover have "y \<in> set ?S" using assms(2,3,4) by simp
  ultimately have "score_date_key x \<le> score_date_key y"
    using assms(5) by (rule distinct_on_first)
  then show ?thesis by (simp add: key_le_precedes)
qed

text \<open>
  C1. The leaderboard of a chart lists its entries by score descending, ties broken by
  date ascending; the rank of an entry is the one \<open>rank()\<close> gives over this order, one
  more than the number of entries that come strictly before it; so of two entries the
  one that comes first in this order, in particular the earlier of two with equal score,
  has the smaller rank.
\<close>

theorem queryLeaderboard_order:
  assumes "queryLeaderboard db levelUid chartType = Inr lb"
  shows "sorted_wrt (\<lambda>a b. \<not> precedes (lb_record b) (lb_record a)) lb
    \<and> (\<forall>e\<in>set lb. lb_rank e =
          Suc (length (filter (\<lambda>x. precedes (lb_record x) (lb_record e)) lb)))
    \<and> (\<forall>a\<in>set lb. \<forall>b\<in>set lb.
          lb_rank a < lb_rank b \<longleftrightarrow> precedes (lb_record a) (lb_record b))"
proof -
  from assms obtain cid where lb: "lb = leaderboard_rows db cid"
    by (auto simp: queryLeaderboard_def split: sum.splits)
  let ?S = "sort_key score_date_key (best_records db cid)"
  let ?n = "\<lambda>r. Suc (length (filter (\<lambda>y. precedes y r) ?S))"
  let ?mk = "\<lambda>r. \<lparr>lb_record = r, lb_owner = snd (join_owner db r), lb_rank = ?n r\<rparr>"
  have eq: "lb = map ?mk ?S" unfolding lb by (rule leaderboard_rows_eq)
  have "sorted (map score_date_key ?S)" by (rule sorted_sort_key)
  then have srt: "sorted_wrt (\<lambda>a b. \<not> precedes b a) ?S"
    by (simp add: sorted_map key_le_precedes)
  have one: "sorted_wrt (\<lambda>a b. \<not> precedes (lb_record b) (lb_record a)) lb"
    unfolding eq using srt by (simp add: sorted_wrt_map)
  have cnt: "\<And>r. length (filter (\<lambda>x. precedes (lb_record x) r) lb) =
      length (filter (\<lambda>y. precedes y r) ?S)"
    unfolding eq by (simp add: filter_map o_def)
  have two: "\<forall>e\<in>set lb. lb_rank e =
      Suc (length (filter (\<lambda>x. precedes (lb_record x) (lb_record e)) lb))"
    unfolding cnt unfolding eq by simp
  have lt: "?n a < ?n b" if "a \<in> set ?S" "precedes a b" for a b
  proof -
    have "length (filter (\<lambda>y. precedes y a) ?S) < length (filter (\<lambda>y. precedes y b) ?S)"
      using that precedes_trans[OF _ that(2)] precedes_irrefl[of a]
      by (intro length_filter_less[where a = a]) auto
    then show ?thesis by simp
  qed
  have ge: "?n b \<le> ?n a" if "\<not> precedes a b" for a b
  proof -
    have "length (filter (\<lambda>y. precedes y b) ?S) \<le> length (filter (\<lambda>y. precedes y a) ?S)"
      using precedes_total_trans[OF that] by (intro length_filter_mono) auto
    then show ?thesis by simp
  qed
  have three: "\<forall>a\<in>set lb. \<forall>b\<in>set lb.
      lb_rank a < lb_rank b \<longleftrightarrow> precedes (lb_record a) (lb_record b)"
  proof (intro ballI)
    fix a b assume "a \<in> set lb" "b \<in> set lb"
    then obtain ra rb where ra: "ra \<in> set ?S" "a = ?mk ra" and rb: "rb \<in> set ?S" "b = ?mk rb"
      unfolding eq by auto
    show "lb_rank a < lb_rank b \<longleftrightarrow> precedes (lb_record a) (lb_record b)"
    proof (cases "precedes ra rb")
      case True
      then show ?thesis using lt[OF ra(1) True] ra(2) rb(2) by simp
    next
      case False
      then show ?thesis using ge[OF False] ra(2) rb(2) by simp
    qed
  qed
  show ?thesis by (rule conjI[OF one conjI[OF two three]])
qed

lemma example_queryLeaderboard:
  "queryLeaderboard example_db ''lv'' ''hard'' = Inr example_leaderboard"
  by (simp add: queryLeaderboard_def chart_id_of_def level_id_of_uid_def scalar_def
      leaderboard_rows_def best_records_def join_owner_def score_date_key_def
      example_db_def example_level_def example_record_def example_leaderboard_def
      alice_def bob_def carol_def)

theorem queryLeaderboard_order_witness:
  "queryLeaderboard example_db ''lv'' ''hard'' = Inr example_leaderboard
   \<and> sorted_wrt (\<lambda>a b. \<not> precedes (lb_record b) (lb_record a)) example_leaderboard
   \<and> map lb_rank example_leaderboard =
       map (\<lambda>e. Suc (length (filter (\<lambda>x. precedes (lb_record x) (lb_record e))
         example_leaderboard))) example_leaderboard
   \<and> map (\<lambda>e. (rec_id (lb_record e), lb_rank e)) example_leaderboard = [(2, 1), (1, 2)]"
  using queryLeaderboard_order[OF example_queryLeaderboard] example_queryLeaderboard
  by (simp add: example_leaderboard_def example_record_def precedes_def)

text \<open>
  C8. On the leaderboard of a chart no owner has two entries; every entry is a ranked
  record of that chart; no ranked record of the same owner on the chart comes strictly
  before it in the order (higher score, or equal score and earlier date); and every owner
  of a ranked record of the chart has an entry.
\<close>

theorem leaderboard_one_entry_per_player:
  assumes "queryLeaderboard db levelUid chartType = Inr lb"
  shows "distinct (map (\<lambda>e. rec_ownerId (lb_record e)) lb)
    \<and> (\<forall>e\<in>set lb. lb_record e \<in> set (records db) \<and> rec_ranked (lb_record e)
          \<and> chart_id_of db levelUid chartType = Inr (Some (rec_chartId (lb_record e))))
    \<and> (\<forall>e\<in>set lb. \<forall>r\<in>set (records db).
          rec_ranked r \<and> rec_chartId r = rec_chartId (lb_record e)
            \<and> rec_ownerId r = rec_ownerId (lb_record e) \<longrightarrow> \<not> precedes r (lb_record e))
    \<and> (\<forall>r\<in>set (records db).
          rec_ranked r \<and> chart_id_of db levelUid chartType = Inr (Some (rec_chartId r))
            \<longrightarrow> rec_ownerId r \<in> (\<lambda>e. rec_ownerId (lb_record e)) ` set lb)"
proof -
  from assms obtain cid where cid: "chart_id_of db levelUid chartType = Inr cid"
    and lb: "lb = leaderboard_rows db cid"
    by (auto simp: queryLeaderboard_def split: sum.splits)
  have recs: "map lb_record lb = sort_key score_date_key (best_records db cid)"
    unfolding lb by (rule lb_records)
  have sets: "lb_record ` set lb = set (best_records db cid)"
    using arg_cong[OF recs, of set] by simp
  have "distinct (map rec_ownerId (map lb_record lb))"
    unfolding recs distinct_map_sort_key by (rule best_records_distinct)
  then have one: "distinct (map (\<lambda>e. rec_ownerId (lb_record e)) lb)"
    by (simp add: o_def)
  have two: "\<forall>e\<in>set lb. lb_record e \<in> set (records db) \<and> rec_ranked (lb_record e)
          \<and> chart_id_of db levelUid chartType = Inr (Some (rec_chartId (lb_record e)))"
    using sets best_records_subset[of db cid] cid by auto
  have three: "\<forall>e\<in>set lb. \<forall>r\<in>set (records db).
          rec_ranked r \<and> rec_chartId r = rec_chartId (lb_record e)
            \<and> rec_ownerId r = rec_ownerId (lb_record e) \<longrightarrow> \<not> precedes r (lb_record e)"
  proof (intro ballI impI)
    fix e r assume e: "e \<in> set lb" and r: "r \<in> set (records db)"
      and h: "rec_ranked r \<and> rec_chartId r = rec_chartId (lb_record e)
            \<and> rec_ownerId r = rec_ownerId (lb_record e)"
    from e sets have b: "lb_record e \<in> set (best_records db cid)" by auto
    with best_records_subset[of db cid] have "Some (rec_chartId (lb_record e)) = cid" by auto
    with h have "Some (rec_chartId r) = cid" by simp
    with b r h show "\<not> precedes r (lb_record e)" by (intro best_records_best[of _ db cid]) auto
  qed
  have four: "\<forall>r\<in>set (records db).
          rec_ranked r \<and> chart_id_of db levelUid chartType = Inr (Some (rec_chartId r))
            \<longrightarrow> rec_ownerId r \<in> (\<lambda>e. rec_ownerId (lb_record e)) ` set lb"
  proof (intro ballI impI)
    fix r assume r: "r \<in> set (records db)"
      and h: "rec_ranked r \<and> chart_id_of db levelUid chartType = Inr (Some (rec_chartId r))"
    with cid have "rec_ownerId r \<in> rec_ownerId ` {r \<in> set (records db). Some (rec_chartId r) = cid \<and> rec_ranked r}"
      by auto
    then have "rec_ownerId r \<in> rec_ownerId ` (lb_record ` set lb)"
      unfolding sets best_records_owners .
    then show "rec_ownerId r \<in> (\<lambda>e. rec_ownerId (lb_record e)) ` set lb" by auto
  qed
  show ?thesis by (rule conjI[OF one conjI[OF two conjI[OF three four]]])
qed

theorem leaderboard_one_entry_per_player_witness:
  "queryLeaderboard example_db ''lv'' ''hard'' = Inr example_leaderboard
   \<and> distinct (map (\<lambda>e. rec_ownerId (lb_record e)) example_leaderboard)
   \<and> map (\<lambda>e. (rec_ownerId (lb_record e), rec_ranked (lb_record e))) example_leaderboard =
       [(''ub'', True), (''ua'', True)]"
  using leaderboard_one_entry_per_player[OF example_queryLeaderboard] example_queryLeaderboard
  by (simp add: example_leaderboard_def example_record_def)

section \<open>Properties of the ranking around a user\<close>

lemma scalar_Some: "scalar xs = Inr (Some x) \<longleftrightarrow> xs = [x]"
  by (auto simp: scalar_def split: list.splits)

lemma scalar_None: "scalar xs = Inr None \<longleftrightarrow> xs = []"
  by (auto simp: scalar_def split: list.splits)

lemma filter_singleton_mem:
  "filter P xs = [y] \<Longrightarrow> x \<in> set xs \<Longrightarrow> P x \<Longrightarrow> x = y"
proof -
  assume a: "filter P xs = [y]" "x \<in> set xs" "P x"
  from a(2,3) have "x \<in> set (filter P xs)" by simp
  then have "x \<in> set [y]" unfolding a(1) .
  then show ?thesis by simp
qed

lemma map_singleton: "map f xs = [n] \<Longrightarrow> \<exists>x. xs = [x] \<and> f x = n"
  by (cases xs) auto

lemma leaderboard_owner:
  "e \<in> set (leaderboard_rows db cid) \<Longrightarrow>
     lb_owner e = find (\<lambda>u. user_id u = rec_ownerId (lb_record e)) (users db)"
  by (auto simp: leaderboard_rows_eq join_owner_def)

lemma find_owner:
  "find (\<lambda>u. user_id u = i) us = Some u \<Longrightarrow> u \<in> set us \<and> user_id u = i"
  by (auto simp: find_Some_iff)

lemma isInteger_iff: "isInteger x \<longleftrightarrow> x \<in> \<int>"
  unfolding isInteger_def
  by (metis Ints_of_int Ints_cases of_int_floor_cancel floor_of_int)

lemma clamp_userLimit:
  "(if 10 < (if u < 0 then 0 else u) then 10 else (if u < 0 then 0 else u)) = max 0 (min 10 (u::rat))"
  by (auto simp: max_def min_def)

lemma around_user_Inr:
  assumes "around_user isUUID db lb user L = Inr rows"
  shows "isInteger L"
    and "\<exists>target rq.
          (if isUUID user then Inr (Some user)
           else scalar (map user_id (filter (\<lambda>u. user_uid u = Some user) (users db))))
            = Inr target
          \<and> scalar (map lb_rank
               (filter (\<lambda>e. target \<noteq> None
                         \<and> map_option (\<lambda>u. uuid_of_text (user_id u)) (lb_owner e)
                             = map_option uuid_of_text target) lb)) = Inr rq
          \<and> rows = (case rq of None \<Rightarrow> []
                     | Some n \<Rightarrow> filter (\<lambda>e. of_int \<bar>int (lb_rank e) - int n\<bar> \<le> L) lb)"
proof -
  from assms show int: "isInteger L"
    by (auto simp: around_user_def split: if_splits)
  with assms obtain rq where rq: "rankQuery isUUID db lb user = Inr rq"
    and rows: "rows = (case rq of None \<Rightarrow> []
                     | Some n \<Rightarrow> filter (\<lambda>e. of_int \<bar>int (lb_rank e) - int n\<bar> \<le> L) lb)"
    by (auto simp: around_user_def split: sum.splits option.splits)
  from rq obtain target where "(if isUUID user then Inr (Some user)
           else scalar (map user_id (filter (\<lambda>u. user_uid u = Some user) (users db))))
            = Inr target"
    and "scalar (map lb_rank
               (filter (\<lambda>e. target \<noteq> None
                         \<and> map_option (\<lambda>u. uuid_of_text (user_id u)) (lb_owner e)
                             = map_option uuid_of_text target) lb)) = Inr rq"
    by (auto simp: rankQuery_def split: sum.splits)
  with rows show "\<exists>target rq.
          (if isUUID user then Inr (Some user)
           else scalar (map user_id (filter (\<lambda>u. user_uid u = Some user) (users db))))
            = Inr target
          \<and> scalar (map lb_rank
               (filter (\<lambda>e. target \<noteq> None
                         \<and> map_option (\<lambda>u. uuid_of_text (user_id u)) (lb_owner e)
                             = map_option uuid_of_text target) lb)) = Inr rq
          \<and> rows = (case rq of None \<Rightarrow> []
                     | Some n \<Rightarrow> filter (\<lambda>e. of_int \<bar>int (lb_rank e) - int n\<bar> \<le> L) lb)"
    by blast
qed

lemma scalar_member:
  assumes "scalar xs = Inr target" and "x \<in> set xs"
  shows "target = Some x"
proof (cases target)
  case None
  with assms(1) have "xs = []" by (simp only: scalar_None)
  with assms(2) show ?thesis by simp
next
  case (Some t)
  with assms(1) have "xs = [t]" by (simp only: scalar_Some)
  with assms(2) Some show ?thesis by simp
qed

lemma around_user_on_board:
  assumes au: "around_user isUUID db lb user L = Inr rows"
    and eu: "eu \<in> set lb" and ow: "lb_owner eu = Some u" and us: "u \<in> set (users db)"
    and nm: "names_user isUUID user u"
  shows "rows = filter (\<lambda>e. of_int \<bar>int (lb_rank e) - int (lb_rank eu)\<bar> \<le> L) lb"
proof -
  from around_user_Inr(2)[OF au] obtain target rq
    where tg: "(if isUUID user then Inr (Some user)
           else scalar (map user_id (filter (\<lambda>u. user_uid u = Some user) (users db))))
            = Inr target"
      and sc: "scalar (map lb_rank
               (filter (\<lambda>e. target \<noteq> None
                         \<and> map_option (\<lambda>u. uuid_of_text (user_id u)) (lb_owner e)
                             = map_option uuid_of_text target) lb)) = Inr rq"
      and rows: "rows = (case rq of None \<Rightarrow> []
                     | Some n \<Rightarrow> filter (\<lambda>e. of_int \<bar>int (lb_rank e) - int n\<bar> \<le> L) lb)"
    by blast
  let ?P = "\<lambda>e. target \<noteq> None
              \<and> map_option (\<lambda>u. uuid_of_text (user_id u)) (lb_owner e)
                  = map_option uuid_of_text target"
  have Peu: "?P eu"
  proof (cases "isUUID user")
    case True
    with tg have "target = Some user" by simp
    with True nm ow show ?thesis by (simp add: names_user_def)
  next
    case False
    with nm have "user_uid u = Some user" by (simp add: names_user_def)
    with us have "user_id u \<in> set (map user_id (filter (\<lambda>u. user_uid u = Some user) (users db)))"
      by auto
    moreover from tg False
    have "scalar (map user_id (filter (\<lambda>u. user_uid u = Some user) (users db))) = Inr target"
      by simp
    ultimately have "target = Some (user_id u)" by (rule scalar_member[rotated])
    with ow show ?thesis by simp
  qed
  from eu Peu have mem: "eu \<in> set (filter ?P lb)"
    by (simp only: set_filter mem_Collect_eq) simp
  then have "lb_rank eu \<in> set (map lb_rank (filter ?P lb))"
    unfolding set_map by (rule imageI)
  with sc have "rq = Some (lb_rank eu)" by (rule scalar_member)
  with rows show ?thesis by simp
qed

lemma around_user_off_board:
  assumes wf: "distinct (map (\<lambda>u. uuid_of_text (user_id u)) (users db))"
    and au: "around_user isUUID db lb user L = Inr rows"
    and owners: "\<And>e u. e \<in> set lb \<Longrightarrow> lb_owner e = Some u \<Longrightarrow> u \<in> set (users db)"
    and none: "\<And>e u. e \<in> set lb \<Longrightarrow> lb_owner e = Some u \<Longrightarrow> \<not> names_user isUUID user u"
  shows "rows = []"
proof -
  from around_user_Inr(2)[OF au] obtain target rq
    where tg: "(if isUUID user then Inr (Some user)
           else scalar (map user_id (filter (\<lambda>u. user_uid u = Some user) (users db))))
            = Inr target"
      and sc: "scalar (map lb_rank
               (filter (\<lambda>e. target \<noteq> None
                         \<and> map_option (\<lambda>u. uuid_of_text (user_id u)) (lb_owner e)
                             = map_option uuid_of_text target) lb)) = Inr rq"
      and rows: "rows = (case rq of None \<Rightarrow> []
                     | Some n \<Rightarrow> filter (\<lambda>e. of_int \<bar>int (lb_rank e) - int n\<bar> \<le> L) lb)"
    by blast
  let ?P = "\<lambda>e. target \<noteq> None
              \<and> map_option (\<lambda>u. uuid_of_text (user_id u)) (lb_owner e)
                  = map_option uuid_of_text target"
  have "\<not> ?P e" if e: "e \<in> set lb" for e
  proof
    assume P: "?P e"
    then obtain tid u where tid: "target = Some tid" and u: "lb_owner e = Some u"
      and same: "uuid_of_text (user_id u) = uuid_of_text tid"
      by (cases target; cases "lb_owner e") auto
    have uin: "u \<in> set (users db)" using owners[OF e u] .
    have "names_user isUUID user u"
    proof (cases "isUUID user")
      case True
      with tg tid have "tid = user" by simp
      with True same show ?thesis by (simp add: names_user_def)
    next
      case False
      with tg tid have "map user_id (filter (\<lambda>u. user_uid u = Some user) (users db)) = [tid]"
        by (simp add: scalar_Some)
      from map_singleton[OF this] obtain u0
        where u0: "filter (\<lambda>u. user_uid u = Some user) (users db) = [u0]" "user_id u0 = tid"
        by (elim exE conjE)
      from u0(1) have "u0 \<in> set (filter (\<lambda>u. user_uid u = Some user) (users db))" by simp
      then have u0in: "u0 \<in> set (users db)" and u0uid: "user_uid u0 = Some user" by auto
      from same u0(2) have "uuid_of_text (user_id u) = uuid_of_text (user_id u0)" by simp
      with wf uin u0in have "u = u0"
        by (auto simp: distinct_map inj_on_def)
      with u0uid False show ?thesis by (simp add: names_user_def)
    qed
    with none[OF e u] show False by simp
  qed
  then have "filter ?P lb = []" by (simp add: filter_empty_conv)
  with sc have "rq = None" by (cases rq) (auto simp: scalar_def)
  with rows show ?thesis by simp
qed

text \<open>
  C2. When \<open>getChartRanking\<close> is called with a user parameter that is not empty and
  returns, the user limit, clamped into the interval from 0 to 10, is an integer, and the
  entities are exactly the rows of the chart's full leaderboard whose rank differs by at
  most the clamped limit from the rank of the entry of the user that the parameter names
  (by id, compared as a uuid, or by uid); when no entry belongs to such a user, no row is
  returned. The ids of the users are distinct uuids.
\<close>

theorem getChartRanking_around_user:
  assumes wf: "distinct (map (\<lambda>u. uuid_of_text (user_id u)) (users db))"
    and user: "user \<noteq> []"
    and res: "getChartRanking isUUID db ctx ident chartType limit_param page_param (Some user)
        userLimit_param = Inr (ctx', entities)"
  shows "\<exists>lb. queryLeaderboard db ident chartType = Inr lb
    \<and> max 0 (min 10 (case userLimit_param of None \<Rightarrow> 3 | Some l \<Rightarrow> l)) \<in> \<int>
    \<and> (\<forall>eu\<in>set lb. (\<exists>u. lb_owner eu = Some u \<and> names_user isUUID user u) \<longrightarrow>
          entities = filter (\<lambda>e. of_int \<bar>int (lb_rank e) - int (lb_rank eu)\<bar>
            \<le> max 0 (min 10 (case userLimit_param of None \<Rightarrow> 3 | Some l \<Rightarrow> l))) lb)
    \<and> ((\<forall>eu\<in>set lb. \<forall>u. lb_owner eu = Some u \<longrightarrow> \<not> names_user isUUID user u) \<longrightarrow>
          entities = [])"
proof -
  let ?L = "max 0 (min 10 (case userLimit_param of None \<Rightarrow> 3 | Some l \<Rightarrow> l))"
  from res user obtain lb where ql: "queryLeaderboard db ident chartType = Inr lb"
    and au: "around_user isUUID db lb user ?L = Inr entities"
    unfolding getChartRanking_def Let_def clamp_userLimit
    by (simp split: sum.splits if_splits prod.splits)
  from ql obtain cid where lb: "lb = leaderboard_rows db cid"
    by (auto simp: queryLeaderboard_def split: sum.splits)
  have owners: "u \<in> set (users db)" if "e \<in> set lb" "lb_owner e = Some u" for e u
    using that leaderboard_owner[of e db cid] find_owner[of "rec_ownerId (lb_record e)" "users db" u]
    unfolding lb by simp
  have int: "?L \<in> \<int>"
    using around_user_Inr(1)[OF au] by (simp only: isInteger_iff)
  have one: "\<forall>eu\<in>set lb. (\<exists>u. lb_owner eu = Some u \<and> names_user isUUID user u) \<longrightarrow>
          entities = filter (\<lambda>e. of_int \<bar>int (lb_rank e) - int (lb_rank eu)\<bar> \<le> ?L) lb"
    using around_user_on_board[OF au] owners by blast
  have two: "(\<forall>eu\<in>set lb. \<forall>u. lb_owner eu = Some u \<longrightarrow> \<not> names_user isUUID user u) \<longrightarrow>
          entities = []"
  proof (intro impI)
    assume h: "\<forall>eu\<in>set lb. \<forall>u. lb_owner eu = Some u \<longrightarrow> \<not> names_user isUUID user u"
    show "entities = []"
    proof (rule around_user_off_board[OF wf au])
      show "\<And>e u. e \<in> set lb \<Longrightarrow> lb_owner e = Some u \<Longrightarrow> u \<in> set (users db)"
        by (rule owners)
      show "\<And>e u. e \<in> set lb \<Longrightarrow> lb_owner e = Some u \<Longrightarrow> \<not> names_user isUUID user u"
        using h by blast
    qed
  qed
  show ?thesis by (rule exI[of _ lb], rule conjI[OF ql conjI[OF int conjI[OF one two]]])
qed

lemma example_uuids:
  "uuid_of_text ''UB'' = ''ub''" "uuid_of_text ''ua'' = ''ua''" "uuid_of_text ''ub'' = ''ub''"
  "uuid_of_text ''uc'' = ''uc''"
  by code_simp+

lemma example_getChartRanking:
  "getChartRanking (\<lambda>s. length s = 2) example_db Map.empty ''lv'' ''hard'' None None
      (Some ''UB'') (Some 0)
     = Inr (Map.empty, [\<lparr>lb_record = example_record 2 ''ub'' 7 900000 3 True,
                         lb_owner = Some bob, lb_rank = 1\<rparr>])"
  "getChartRanking (\<lambda>s. length s = 2) example_db Map.empty ''lv'' ''hard'' None None
      (Some ''alice'') (Some 25) = Inr (Map.empty, example_leaderboard)"
proof -
  have i: "isInteger 0" "isInteger 10" by (simp_all add: isInteger_def)
  have au: "around_user (\<lambda>s. length s = 2) example_db example_leaderboard ''UB'' 0 =
      Inr [\<lparr>lb_record = example_record 2 ''ub'' 7 900000 3 True,
            lb_owner = Some bob, lb_rank = 1\<rparr>]"
    by (simp add: around_user_def rankQuery_def scalar_def example_leaderboard_def
        example_uuids alice_def bob_def i)
  have au': "around_user (\<lambda>s. length s = 2) example_db example_leaderboard ''alice'' 10 =
      Inr example_leaderboard"
    by (simp add: around_user_def rankQuery_def scalar_def example_leaderboard_def
        example_db_def example_uuids alice_def bob_def carol_def i)
  have ne: "example_leaderboard \<noteq> []"
    by (simp add: example_leaderboard_def)
  show "getChartRanking (\<lambda>s. length s = 2) example_db Map.empty ''lv'' ''hard'' None None
      (Some ''UB'') (Some 0)
     = Inr (Map.empty, [\<lparr>lb_record = example_record 2 ''ub'' 7 900000 3 True,
                         lb_owner = Some bob, lb_rank = 1\<rparr>])"
    by (simp add: getChartRanking_def example_queryLeaderboard au)
  show "getChartRanking (\<lambda>s. length s = 2) example_db Map.empty ''lv'' ''hard'' None None
      (Some ''alice'') (Some 25) = Inr (Map.empty, example_leaderboard)"
    by (simp add: getChartRanking_def example_queryLeaderboard au' ne)
qed

theorem getChartRanking_around_user_witness:
  "distinct (map (\<lambda>u. uuid_of_text (user_id u)) (users example_db)) \<and> ''UB'' \<noteq> []
   \<and> getChartRanking (\<lambda>s. length s = 2) example_db Map.empty ''lv'' ''hard'' None None
        (Some ''UB'') (Some 0)
       = Inr (Map.empty, [\<lparr>lb_record = example_record 2 ''ub'' 7 900000 3 True,
                           lb_owner = Some bob, lb_rank = 1\<rparr>])
   \<and> queryLeaderboard example_db ''lv'' ''hard'' = Inr example_leaderboard
   \<and> names_user (\<lambda>s. length s = 2) ''UB'' bob
   \<and> [\<lparr>lb_record = example_record 2 ''ub'' 7 900000 3 True, lb_owner = Some bob, lb_rank = 1\<rparr>] =
        filter (\<lambda>e. of_int \<bar>int (lb_rank e) - 1\<bar> \<le> (0::rat)) example_leaderboard
   \<and> getChartRanking (\<lambda>s. length s = 2) example_db Map.empty ''lv'' ''hard'' None None
        (Some ''alice'') (Some 25) = Inr (Map.empty, example_leaderboard)
   \<and> names_user (\<lambda>s. length s = 2) ''alice'' alice
   \<and> example_leaderboard =
        filter (\<lambda>e. of_int \<bar>int (lb_rank e) - 2\<bar> \<le> (10::rat)) example_leaderboard"
proof -
  have wf: "distinct (map (\<lambda>u. uuid_of_text (user_id u)) (users example_db))"
    by (simp add: example_db_def alice_def bob_def carol_def example_uuids)
  have ne: "''UB'' \<noteq> []" "''alice'' \<noteq> []" by simp_all
  have nb: "names_user (\<lambda>s. length s = 2) ''UB'' bob"
    by (simp add: names_user_def bob_def example_uuids)
  have na: "names_user (\<lambda>s. length s = 2) ''alice'' alice"
    by (simp add: names_user_def alice_def)
  from getChartRanking_around_user[OF wf ne(1) example_getChartRanking(1)]
    getChartRanking_around_user[OF wf ne(2) example_getChartRanking(2)]
  show ?thesis
    using wf nb na example_getChartRanking example_queryLeaderboard
    by (simp add: example_leaderboard_def)
qed

section \<open>Properties of the level listing\<close>

lemma limit_offset_slice:
  "limit_offset a b xs = Inr rows \<Longrightarrow> \<exists>n m. rows = take n (drop m xs) \<or> rows = drop m xs"
  unfolding limit_offset_def
  by (auto split: if_splits) (metis drop0)+

lemma limit_offset_sorted_wrt:
  assumes "sorted_wrt P xs" and "limit_offset a b xs = Inr rows"
  shows "sorted_wrt P rows"
proof -
  from limit_offset_slice[OF assms(2)] obtain n m
    where "rows = take n (drop m xs) \<or> rows = drop m xs" by blast
  then show ?thesis
    using assms(1) by (auto intro: sorted_wrt_take sorted_wrt_drop)
qed


lemma aux_rating_None: "aux_rating db l = None \<longleftrightarrow> ratings_of_level db (level_id l) = []"
  by (simp add: aux_rating_def sql_avg_def Let_def)

lemma order_key_null:
  "fst (order_key db AuxRating desc by_date l) = (aux_rating db l = None)"
  by (simp add: order_key_def column_value_def split: option.splits)

lemma order_levels_rating_sorted:
  assumes "q_sort q = Some ''rating''"
  shows "sorted_wrt (\<lambda>a b. aux_rating db a = None \<longrightarrow> aux_rating db b = None)
           (order_levels db sortOrder q rows)"
proof -
  let ?k = "order_key db AuxRating (toUpperCase sortOrder = ''DESC'') True"
  have ol: "order_levels db sortOrder q rows = sort_key ?k rows"
    using assms by (simp add: order_levels_def truthy_def keyMap_def)
  have "sorted (map ?k (sort_key ?k rows))" by (rule sorted_sort_key)
  then have "sorted_wrt (\<lambda>a b. ?k a \<le> ?k b) (sort_key ?k rows)"
    by (simp add: sorted_map)
  then have "sorted_wrt (\<lambda>a b. aux_rating db a = None \<longrightarrow> aux_rating db b = None) (sort_key ?k rows)"
  proof (rule sorted_wrt_mono_rel[rotated])
    fix a b assume "?k a \<le> ?k b"
    then have "fst (?k a) \<le> fst (?k b)" by (auto simp: less_eq_prod_def)
    then show "aux_rating db a = None \<longrightarrow> aux_rating db b = None"
      unfolding order_key_null by simp
  qed
  then show ?thesis unfolding ol .
qed








lemma example_matching:
  "filter (level_matches (\<lambda>s. length s = 36) (\<lambda>k. []) example_db None example_request) (levels example_db)
    = [example_level 1 ''lv'', example_level 2 ''lw'']"
  by (simp add: level_matches_def charts_condition_def date_condition_def featured_condition_def
      tags_condition_def search_condition_def owner_condition_def is_public_query_def truthy_def
      example_request_def example_db_def example_level_def)

lemma example_aux_rating:
  "aux_rating example_db (example_level 1 ''lv'') = Some (13 / 2)"
  "aux_rating example_db (example_level 2 ''lw'') = None"
  by (simp_all add: aux_rating_def ratings_of_level_def sql_avg_def example_db_def example_level_def)

lemma example_order:
  "order_levels example_db ''asc'' example_request [example_level 1 ''lv'', example_level 2 ''lw'']
     = [example_level 1 ''lv'', example_level 2 ''lw'']"
  by (simp add: order_levels_def truthy_def keyMap_def example_request_def order_key_def
      column_value_def example_aux_rating)

lemma example_rounding:
  "pg_round 0 = 0" "pg_round 30 = 30" "\<lceil>(1::rat) / 15\<rceil> = 1"
  by code_simp+

lemma example_getLevels:
  "getLevels (\<lambda>s. length s = 36) (\<lambda>k. []) example_db Map.empty None None None None example_request
     = Inr ([''Cache-Control'' \<mapsto> Text ''public, max-age=60'',
             ''X-Total-Entries'' \<mapsto> Number (Finite 2),
             ''X-Total-Page'' \<mapsto> Number (Finite 1),
             ''X-Current-Page'' \<mapsto> Number (Finite 0)], Some example_entities)"
  unfolding getLevels_def example_matching
  by (simp add: isInteger_def example_order limit_offset_def example_rounding is_public_query_def
      example_entities_def)

lemma order_key_rating:
  assumes "order_key db AuxRating desc True a \<le> order_key db AuxRating desc True b"
  shows "in_rating_order db desc a b"
  using assms
  by (cases "aux_rating db a"; cases "aux_rating db b")
     (auto simp: order_key_def column_value_def in_rating_order_def less_eq_prod_def
        of_rat_less of_rat_less_eq split: if_splits)

lemma order_levels_in_rating_order:
  assumes "q_sort q = Some ''rating''"
  shows "sorted_wrt (in_rating_order db (toUpperCase sortOrder = ''DESC''))
           (order_levels db sortOrder q rows)"
proof -
  let ?k = "order_key db AuxRating (toUpperCase sortOrder = ''DESC'') True"
  have ol: "order_levels db sortOrder q rows = sort_key ?k rows"
    using assms by (simp add: order_levels_def truthy_def keyMap_def)
  have "sorted (map ?k (sort_key ?k rows))" by (rule sorted_sort_key)
  then have "sorted_wrt (\<lambda>a b. ?k a \<le> ?k b) (sort_key ?k rows)"
    by (simp add: sorted_map)
  then have "sorted_wrt (in_rating_order db (toUpperCase sortOrder = ''DESC'')) (sort_key ?k rows)"
    by (rule sorted_wrt_mono_rel[rotated]) (rule order_key_rating)
  then show ?thesis unfolding ol .
qed





lemma example_case:
  "toUpperCase ''asc'' \<noteq> ''DESC''" "toUpperCase ''desc'' = ''DESC''"
  by code_simp+

lemma example_listing_matching:
  "filter (level_matches (\<lambda>s. length s = 36) (\<lambda>k. []) example_listing_db None example_request)
     (levels example_listing_db)
    = [example_level 1 ''lv'', example_level 2 ''lw'']"
  by (simp add: level_matches_def charts_condition_def date_condition_def featured_condition_def
      tags_condition_def search_condition_def owner_condition_def is_public_query_def truthy_def
      example_request_def example_listing_db_def example_db_def example_level_def)

lemma example_listing_aux_rating:
  "aux_rating example_listing_db (example_level 1 ''lv'') = Some (13 / 2)"
  "aux_rating example_listing_db (example_level 2 ''lw'') = Some (70 / 11)"
  by (simp_all add: aux_rating_def ratings_of_level_def sql_avg_def example_listing_db_def
      example_level_def)

lemma example_listing_order:
  "order_levels example_listing_db ''asc'' example_request
      [example_level 1 ''lv'', example_level 2 ''lw'']
     = [example_level 2 ''lw'', example_level 1 ''lv'']"
  "order_levels example_listing_db ''desc'' example_request
      [example_level 1 ''lv'', example_level 2 ''lw'']
     = [example_level 1 ''lv'', example_level 2 ''lw'']"
  by (simp_all add: order_levels_def truthy_def keyMap_def example_request_def order_key_def
      column_value_def example_listing_aux_rating example_case less_eq_prod_def less_prod_def
      of_rat_divide)

lemma example_listing_getLevels:
  "getLevels (\<lambda>s. length s = 36) (\<lambda>k. []) example_listing_db Map.empty None None None None
      example_request
     = Inr ([''Cache-Control'' \<mapsto> Text ''public, max-age=60'',
             ''X-Total-Entries'' \<mapsto> Number (Finite 2),
             ''X-Total-Page'' \<mapsto> Number (Finite 1),
             ''X-Current-Page'' \<mapsto> Number (Finite 0)],
            Some [to_entity example_listing_db (example_level 2 ''lw''),
                  to_entity example_listing_db (example_level 1 ''lv'')])"
  "getLevels (\<lambda>s. length s = 36) (\<lambda>k. []) example_listing_db Map.empty None None None
      (Some ''desc'') example_request
     = Inr ([''Cache-Control'' \<mapsto> Text ''public, max-age=60'',
             ''X-Total-Entries'' \<mapsto> Number (Finite 2),
             ''X-Total-Page'' \<mapsto> Number (Finite 1),
             ''X-Current-Page'' \<mapsto> Number (Finite 0)],
            Some [to_entity example_listing_db (example_level 1 ''lv''),
                  to_entity example_listing_db (example_level 2 ''lw'')])"
  unfolding getLevels_def example_listing_matching
  by (simp_all add: isInteger_def example_listing_order limit_offset_def example_rounding
      is_public_query_def)

text \<open>
  C3. The rating by which \<open>getLevels\<close> sorts a level with \<open>n\<close> ratings of mean \<open>m\<close> is
  \<open>(60 + m * n) / (10 + n)\<close>, and NULL when the level has no rating. A listing sorted by
  rating is in the order of that value: ascending, or descending when the order asked
  for is \<open>desc\<close> in any case of the letters; levels of equal rating stand with the later
  created first; and in either direction no level without rating comes before a level
  with one.
\<close>

theorem aux_rating_bayesian:
  "aux_rating db l =
     (if length (ratings_of_level db (level_id l)) = 0 then None
      else Some ((60 + mean (ratings_of_level db (level_id l))
                        * of_nat (length (ratings_of_level db (level_id l))))
                 / (10 + of_nat (length (ratings_of_level db (level_id l))))))
   \<and> (q_sort q = Some ''rating''
        \<and> getLevels isUUID fts db ctx user page_param limit_param order_param q
            = Inr (ctx', Some entities)
      \<longrightarrow> sorted_wrt (\<lambda>a b. in_rating_order db
                (toUpperCase (case order_param of None \<Rightarrow> ''asc'' | Some s \<Rightarrow> s) = ''DESC'')
                (le_level a) (le_level b)) entities
        \<and> sorted_wrt (\<lambda>a b. aux_rating db (le_level a) = None
                               \<longrightarrow> aux_rating db (le_level b) = None) entities)"
proof (rule conjI)
  show "aux_rating db l =
     (if length (ratings_of_level db (level_id l)) = 0 then None
      else Some ((60 + mean (ratings_of_level db (level_id l))
                        * of_nat (length (ratings_of_level db (level_id l))))
                 / (10 + of_nat (length (ratings_of_level db (level_id l))))))"
    by (simp add: aux_rating_def sql_avg_def mean_def Let_def)
next
  show "q_sort q = Some ''rating''
        \<and> getLevels isUUID fts db ctx user page_param limit_param order_param q
            = Inr (ctx', Some entities)
      \<longrightarrow> sorted_wrt (\<lambda>a b. in_rating_order db
                (toUpperCase (case order_param of None \<Rightarrow> ''asc'' | Some s \<Rightarrow> s) = ''DESC'')
                (le_level a) (le_level b)) entities
        \<and> sorted_wrt (\<lambda>a b. aux_rating db (le_level a) = None
                               \<longrightarrow> aux_rating db (le_level b) = None) entities"
  proof (rule impI, elim conjE)
    let ?so = "case order_param of None \<Rightarrow> ''asc'' | Some s \<Rightarrow> s"
    assume s: "q_sort q = Some ''rating''"
      and g: "getLevels isUUID fts db ctx user page_param limit_param order_param q
            = Inr (ctx', Some entities)"
    from g obtain L ofs rows where
      lo: "limit_offset L ofs
             (order_levels db ?so q (filter (level_matches isUUID fts db user q) (levels db)))
           = Inr rows"
      and en: "entities = map (to_entity db) rows"
      unfolding getLevels_def Let_def
      by (auto split: if_splits sum.splits)
    have "sorted_wrt (in_rating_order db (toUpperCase ?so = ''DESC'')) rows"
      using order_levels_in_rating_order[OF s] lo by (rule limit_offset_sorted_wrt)
    then have one: "sorted_wrt (\<lambda>a b. in_rating_order db (toUpperCase ?so = ''DESC'')
                (le_level a) (le_level b)) entities"
      unfolding en by (simp add: sorted_wrt_map to_entity_def)
    have "sorted_wrt (\<lambda>a b. aux_rating db a = None \<longrightarrow> aux_rating db b = None) rows"
      using order_levels_rating_sorted[OF s] lo by (rule limit_offset_sorted_wrt)
    then have two: "sorted_wrt (\<lambda>a b. aux_rating db (le_level a) = None
                               \<longrightarrow> aux_rating db (le_level b) = None) entities"
      unfolding en by (simp add: sorted_wrt_map to_entity_def)
    show "sorted_wrt (\<lambda>a b. in_rating_order db (toUpperCase ?so = ''DESC'')
                (le_level a) (le_level b)) entities
        \<and> sorted_wrt (\<lambda>a b. aux_rating db (le_level a) = None
                               \<longrightarrow> aux_rating db (le_level b) = None) entities"
      by (rule conjI[OF one two])
  qed
qed

theorem aux_rating_bayesian_witness:
  "q_sort example_request = Some ''rating''
   \<and> getLevels (\<lambda>s. length s = 36) (\<lambda>k. []) example_db Map.empty None None None None
         example_request
       = Inr ([''Cache-Control'' \<mapsto> Text ''public, max-age=60'',
               ''X-Total-Entries'' \<mapsto> Number (Finite 2),
               ''X-Total-Page'' \<mapsto> Number (Finite 1),
               ''X-Current-Page'' \<mapsto> Number (Finite 0)], Some example_entities)
   \<and> aux_rating example_db (example_level 1 ''lv'') = Some ((60 + 9 * 2) / (10 + 2))
   \<and> aux_rating example_db (example_level 2 ''lw'') = None
   \<and> sorted_wrt (\<lambda>a b. aux_rating example_db (le_level a) = None
                         \<longrightarrow> aux_rating example_db (le_level b) = None) example_entities
   \<and> sorted_wrt (\<lambda>a b. in_rating_order example_db False (le_level a) (le_level b))
        example_entities
   \<and> getLevels (\<lambda>s. length s = 36) (\<lambda>k. []) example_listing_db Map.empty None None None None
         example_request
       = Inr ([''Cache-Control'' \<mapsto> Text ''public, max-age=60'',
               ''X-Total-Entries'' \<mapsto> Number (Finite 2),
               ''X-Total-Page'' \<mapsto> Number (Finite 1),
               ''X-Current-Page'' \<mapsto> Number (Finite 0)],
              Some [to_entity example_listing_db (example_level 2 ''lw''),
                    to_entity example_listing_db (example_level 1 ''lv'')])
   \<and> aux_rating example_listing_db (example_level 2 ''lw'') = Some (70 / 11)
   \<and> aux_rating example_listing_db (example_level 1 ''lv'') = Some (13 / 2)
   \<and> sorted_wrt (\<lambda>a b. in_rating_order example_listing_db False (le_level a) (le_level b))
        [to_entity example_listing_db (example_level 2 ''lw''),
         to_entity example_listing_db (example_level 1 ''lv'')]
   \<and> getLevels (\<lambda>s. length s = 36) (\<lambda>k. []) example_listing_db Map.empty None None None
         (Some ''desc'') example_request
       = Inr ([''Cache-Control'' \<mapsto> Text ''public, max-age=60'',
               ''X-Total-Entries'' \<mapsto> Number (Finite 2),
               ''X-Total-Page'' \<mapsto> Number (Finite 1),
               ''X-Current-Page'' \<mapsto> Number (Finite 0)],
              Some [to_entity example_listing_db (example_level 1 ''lv''),
                    to_entity example_listing_db (example_level 2 ''lw'')])
   \<and> sorted_wrt (\<lambda>a b. in_rating_order example_listing_db True (le_level a) (le_level b))
        [to_entity example_listing_db (example_level 1 ''lv''),
         to_entity example_listing_db (example_level 2 ''lw'')]"
proof -
  have s: "q_sort example_request = Some ''rating''"
    by (simp add: example_request_def)
  note t = aux_rating_bayesian[where q = example_request and isUUID = "\<lambda>s. length s = 36"
      and fts = "\<lambda>k. []" and ctx = Map.empty and user = None and page_param = None
      and limit_param = None]
  from t[where db = example_db and l = "example_level 1 ''lv''" and order_param = None
      and entities = example_entities]
  have a: "aux_rating example_db (example_level 1 ''lv'') = Some ((60 + 9 * 2) / (10 + 2))
     \<and> sorted_wrt (\<lambda>a b. aux_rating example_db (le_level a) = None
                         \<longrightarrow> aux_rating example_db (le_level b) = None) example_entities
     \<and> sorted_wrt (\<lambda>a b. in_rating_order example_db False (le_level a) (le_level b))
        example_entities"
    using s example_getLevels example_aux_rating example_case by simp
  from t[where db = example_listing_db and l = "example_level 1 ''lv''" and order_param = None
      and entities = "[to_entity example_listing_db (example_level 2 ''lw''),
                       to_entity example_listing_db (example_level 1 ''lv'')]"]
  have b: "sorted_wrt (\<lambda>a b. in_rating_order example_listing_db False (le_level a) (le_level b))
        [to_entity example_listing_db (example_level 2 ''lw''),
         to_entity example_listing_db (example_level 1 ''lv'')]"
    using s example_listing_getLevels(1) example_case by simp
  from t[where db = example_listing_db and l = "example_level 1 ''lv''"
      and order_param = "Some ''desc''"
      and entities = "[to_entity example_listing_db (example_level 1 ''lv''),
                       to_entity example_listing_db (example_level 2 ''lw'')]"]
  have c: "sorted_wrt (\<lambda>a b. in_rating_order example_listing_db True (le_level a) (le_level b))
        [to_entity example_listing_db (example_level 1 ''lv''),
         to_entity example_listing_db (example_level 2 ''lw'')]"
    using s example_listing_getLevels(2) example_case by simp
  from s example_getLevels example_aux_rating(2) a b c example_listing_getLevels
    example_listing_aux_rating
  show ?thesis by simp
qed





section \<open>Properties of the ratings of a level\<close>

lemma scalar_error: "scalar xs = Inl e \<Longrightarrow> e = QueryFailedError"
  by (auto simp: scalar_def split: list.splits)

lemma level_id_of_uid_error: "level_id_of_uid db ident = Inl e \<Longrightarrow> e = QueryFailedError"
  unfolding level_id_of_uid_def by (rule scalar_error)

lemma getRatings_db: "st_db (snd (getRatings st now ident user)) = st_db st"
  by (auto simp: getRatings_def Let_def split: option.splits sum.splits)

lemma getRatings_error:
  "fst (getRatings st now ident user) = Inl e \<Longrightarrow> e = QueryFailedError"
  by (auto simp: getRatings_def Let_def split: option.splits sum.splits
      dest: scalar_error level_id_of_uid_error)

lemma getRatings_miss:
  assumes "getAsync (st_cache st) now (levelRatingCacheKey @ ident) = None"
    and "getRatings st now ident user = (Inr res, st')"
  shows "st' = st\<lparr>st_cache := (st_cache st)(levelRatingCacheKey @ ident \<mapsto>
                   (res\<lparr>rs_rating := None\<rparr>, now + 3600))\<rparr>"
  using assms
  by (auto simp: getRatings_def Let_def setexAsync_def split: sum.splits if_splits)

lemma getRatings_hit_anonymous:
  assumes "st_cache st (levelRatingCacheKey @ ident) = Some (v, expiry)" and "now < expiry"
  shows "getRatings st now ident None = (Inr v, st)"
  using assms by (simp add: getRatings_def getAsync_def)

lemma getRatings_hit_user:
  assumes "st_cache st (levelRatingCacheKey @ ident) = Some (v, expiry)" and "now < expiry"
    and "getRatings st now ident (Some u) = (Inr res, st')"
  shows "res\<lparr>rs_rating := None\<rparr> = v\<lparr>rs_rating := None\<rparr> \<and> st' = st"
  using assms
  by (auto simp: getRatings_def getAsync_def Let_def split: sum.splits)

lemma write_rating_guard:
  assumes "r \<noteq> 0" and "write_rating col db ident user (Some r) = Inr db'"
  shows "0 < r \<and> r \<le> 10"
  using assms by (auto simp: write_rating_def split: if_splits)

lemma write_rating_rejected:
  assumes "r \<noteq> 0" and "r \<le> 0 \<or> 10 < r"
  shows "write_rating col db ident user (Some r) = Inl BadRequestError"
  using assms by (auto simp: write_rating_def)

lemma updateRatings_db:
  "st_db (snd (updateRatings col st now ident user rating)) =
     (case write_rating col (st_db st) ident user rating of Inl e \<Rightarrow> st_db st | Inr db' \<Rightarrow> db')"
  by (simp add: updateRatings_def getRatings_db split: sum.splits)


lemma getRatings_then_cached:
  assumes miss: "getAsync (st_cache st) now (levelRatingCacheKey @ ident) = None"
    and g: "getRatings st now ident user = (Inr res, st')"
  shows "st' = st\<lparr>st_cache := (st_cache st)(levelRatingCacheKey @ ident \<mapsto>
                   (res\<lparr>rs_rating := None\<rparr>, now + 3600))\<rparr>
        \<and> (later < now + 3600 \<longrightarrow>
             getRatings (st'\<lparr>st_db := db'\<rparr>) later ident None
               = (Inr (res\<lparr>rs_rating := None\<rparr>), st'\<lparr>st_db := db'\<rparr>))
        \<and> (now + 3600 \<le> later \<longrightarrow>
             getAsync (st_cache st') later (levelRatingCacheKey @ ident) = None)"
proof -
  have eq: "st' = st\<lparr>st_cache := (st_cache st)(levelRatingCacheKey @ ident \<mapsto>
                   (res\<lparr>rs_rating := None\<rparr>, now + 3600))\<rparr>"
    using miss g by (rule getRatings_miss)
  have served: "later < now + 3600 \<longrightarrow>
             getRatings (st'\<lparr>st_db := db'\<rparr>) later ident None
               = (Inr (res\<lparr>rs_rating := None\<rparr>), st'\<lparr>st_db := db'\<rparr>)"
  proof (rule impI)
    assume "later < now + 3600"
    then show "getRatings (st'\<lparr>st_db := db'\<rparr>) later ident None
               = (Inr (res\<lparr>rs_rating := None\<rparr>), st'\<lparr>st_db := db'\<rparr>)"
      by (intro getRatings_hit_anonymous[where expiry = "now + 3600"]) (simp_all add: eq)
  qed
  have expired: "now + 3600 \<le> later \<longrightarrow>
             getAsync (st_cache st') later (levelRatingCacheKey @ ident) = None"
    by (simp add: eq getAsync_def)
  show ?thesis by (rule conjI[OF eq conjI[OF served expired]])
qed

lemma getRatings_cached:
  assumes c: "st_cache st (levelRatingCacheKey @ ident) = Some (v, expiry)" and t: "now < expiry"
  shows "getRatings st now ident None = (Inr v, st)
        \<and> (getRatings st now ident (Some u) = (Inr res, st') \<longrightarrow>
             res\<lparr>rs_rating := None\<rparr> = v\<lparr>rs_rating := None\<rparr> \<and> st' = st)"
proof (rule conjI)
  show "getRatings st now ident None = (Inr v, st)"
    using c t by (rule getRatings_hit_anonymous)
  show "getRatings st now ident (Some u) = (Inr res, st') \<longrightarrow>
             res\<lparr>rs_rating := None\<rparr> = v\<lparr>rs_rating := None\<rparr> \<and> st' = st"
    using getRatings_hit_user[OF c t] by blast
qed

lemma updateRatings_recomputed:
  assumes u: "updateRatings col st now ident caller rating = (Inr res, st')"
  shows "(Inr res, st') = getRatings
           \<lparr>st_db = st_db st', st_cache = (st_cache st)(levelRatingCacheKey @ ident := None)\<rparr>
           now ident (Some caller)
        \<and> write_rating col (st_db st) ident caller rating = Inr (st_db st')
        \<and> st_cache st' = (st_cache st)(levelRatingCacheKey @ ident \<mapsto>
                   (res\<lparr>rs_rating := None\<rparr>, now + 3600))"
proof -
  from u obtain d where w: "write_rating col (st_db st) ident caller rating = Inr d"
    and g: "getRatings \<lparr>st_db = d, st_cache = delAsync (st_cache st) (levelRatingCacheKey @ ident)\<rparr>
        now ident (Some caller) = (Inr res, st')"
    by (auto simp: updateRatings_def split: sum.splits)
  have d: "st_db st' = d"
    using getRatings_db[of "\<lparr>st_db = d, st_cache = delAsync (st_cache st) (levelRatingCacheKey @ ident)\<rparr>"
        now ident "Some caller"] g by simp
  have one: "(Inr res, st') = getRatings
           \<lparr>st_db = st_db st', st_cache = (st_cache st)(levelRatingCacheKey @ ident := None)\<rparr>
           now ident (Some caller)"
    using g d by (simp add: delAsync_def)
  have two: "write_rating col (st_db st) ident caller rating = Inr (st_db st')"
    using w d by simp
  have miss: "getAsync (st_cache \<lparr>st_db = d,
        st_cache = delAsync (st_cache st) (levelRatingCacheKey @ ident)\<rparr>) now
      (levelRatingCacheKey @ ident) = None"
    by (simp add: getAsync_def delAsync_def)
  have three: "st_cache st' = (st_cache st)(levelRatingCacheKey @ ident \<mapsto>
                   (res\<lparr>rs_rating := None\<rparr>, now + 3600))"
    using getRatings_miss[OF miss g] by (simp add: delAsync_def)
  show ?thesis by (rule conjI[OF one conjI[OF two three]])
qed

lemma example_level_ids:
  "level_id_of_uid example_db ''lv'' = Inr (Some 1)"
  "level_id_of_uid example_db ''lw'' = Inr (Some 2)"
  "level_id_of_uid example_db ''zz'' = Inr None"
  by (simp_all add: level_id_of_uid_def scalar_def example_db_def example_level_def)

lemma example_level_ratings:
  "level_ratings example_db =
     [\<lparr>rating_levelId = 1, rating_userId = ''ua'', rating_value = 8\<rparr>,
      \<lparr>rating_levelId = 1, rating_userId = ''ub'', rating_value = 10\<rparr>]"
  by (simp add: example_db_def)

lemma example_write_half:
  "write_rating numeric_column example_db ''lv'' example_user (Some (1 / 2)) =
     Inr (example_db\<lparr>level_ratings :=
       [\<lparr>rating_levelId = 1, rating_userId = ''ua'', rating_value = 1 / 2\<rparr>,
        \<lparr>rating_levelId = 1, rating_userId = ''ub'', rating_value = 10\<rparr>]\<rparr>)"
  "write_rating integer_column example_db ''lv'' example_user (Some (1 / 2)) = Inl QueryFailedError"
proof -
  have "\<lfloor>1 / 2 :: rat\<rfloor> = 0" by code_simp
  then have ni: "\<not> isInteger (1 / 2)" by (simp add: isInteger_def)
  show "write_rating numeric_column example_db ''lv'' example_user (Some (1 / 2)) =
     Inr (example_db\<lparr>level_ratings :=
       [\<lparr>rating_levelId = 1, rating_userId = ''ua'', rating_value = 1 / 2\<rparr>,
        \<lparr>rating_levelId = 1, rating_userId = ''ub'', rating_value = 10\<rparr>]\<rparr>)"
    by (simp add: write_rating_def numeric_column_def example_level_ids example_level_ratings
        upsert_def example_user_def)
  show "write_rating integer_column example_db ''lv'' example_user (Some (1 / 2)) = Inl QueryFailedError"
    by (simp add: write_rating_def integer_column_def ni)
qed


lemma example_write_three:
  "write_rating numeric_column example_db ''lv'' example_user (Some 3) = Inr example_rated_db"
  by (simp add: write_rating_def numeric_column_def example_level_ids example_level_ratings
        upsert_def example_user_def example_rated_db_def)

lemma example_getRatings:
  "getRatings example_server 5 ''lv'' None = (Inr example_summary, example_cached_server)"
  by (simp add: getRatings_def getAsync_def setexAsync_def example_server_def example_level_ids
      example_level_ratings sql_avg_def distribution_def example_summary_def
      example_cached_server_def upt_rec Let_def numeral_2_eq_2[symmetric])

lemma example_updateRatings:
  "updateRatings numeric_column example_cached_server 100 ''lv'' example_user (Some 3) =
     (Inr example_rated_summary,
      \<lparr>st_db = example_rated_db,
       st_cache = [levelRatingCacheKey @ ''lv'' \<mapsto>
                     (example_rated_summary\<lparr>rs_rating := None\<rparr>, 3700)]\<rparr>)"
proof -
  have lid: "level_id_of_uid example_rated_db ''lv'' = Inr (Some 1)"
    by (simp add: example_rated_db_def level_id_of_uid_def scalar_def example_db_def
        example_level_def)
  have rs: "level_ratings example_rated_db =
       [\<lparr>rating_levelId = 1, rating_userId = ''ua'', rating_value = 3\<rparr>,
        \<lparr>rating_levelId = 1, rating_userId = ''ub'', rating_value = 10\<rparr>]"
    by (simp add: example_rated_db_def)
  have pi: "parseInt 3 = 3" by code_simp
  have w: "write_rating numeric_column (st_db example_cached_server) ''lv'' example_user (Some 3)
      = Inr example_rated_db"
    by (simp add: example_cached_server_def example_write_three)
  have c: "delAsync (st_cache example_cached_server) (levelRatingCacheKey @ ''lv'') = Map.empty"
    by (simp add: example_cached_server_def delAsync_def)
  have "getRatings \<lparr>st_db = example_rated_db, st_cache = Map.empty\<rparr> 100 ''lv''
      (Some example_user) =
     (Inr example_rated_summary,
      \<lparr>st_db = example_rated_db,
       st_cache = [levelRatingCacheKey @ ''lv'' \<mapsto>
                     (example_rated_summary\<lparr>rs_rating := None\<rparr>, 3700)]\<rparr>)"
    by (simp add: getRatings_def getAsync_def setexAsync_def lid rs scalar_def
        example_user_def sql_avg_def distribution_def example_rated_summary_def upt_rec pi
        Let_def numeral_2_eq_2[symmetric])
  then show ?thesis
    by (simp add: updateRatings_def w c)
qed

text \<open>
  C4, as stated, fails: a rating of one half is not zero and lies outside the range from
  1 to 10, yet \<open>updateRatings\<close> does not reject it with \<open>BadRequestError\<close>. The statement
  reaches the database, where a column that takes the number stores it, and a column of
  integers makes the statement fail with the error of the database.
\<close>

theorem updateRatings_fraction_counterexample:
  "(1 / 2 :: rat) \<noteq> 0 \<and> (1 / 2 :: rat) < 1
   \<and> fst (updateRatings numeric_column example_server 5 ''lv'' example_user (Some (1 / 2)))
       \<noteq> Inl BadRequestError
   \<and> level_ratings (st_db (snd
         (updateRatings numeric_column example_server 5 ''lv'' example_user (Some (1 / 2))))) =
       [\<lparr>rating_levelId = 1, rating_userId = ''ua'', rating_value = 1 / 2\<rparr>,
        \<lparr>rating_levelId = 1, rating_userId = ''ub'', rating_value = 10\<rparr>]
   \<and> updateRatings integer_column example_server 5 ''lv'' example_user (Some (1 / 2))
       = (Inl QueryFailedError, example_server)"
proof -
  have a: "fst (updateRatings numeric_column example_server 5 ''lv'' example_user (Some (1 / 2)))
       \<noteq> Inl BadRequestError"
  proof
    assume "fst (updateRatings numeric_column example_server 5 ''lv'' example_user (Some (1 / 2)))
       = Inl BadRequestError"
    then have "fst (getRatings \<lparr>st_db = example_db\<lparr>level_ratings :=
       [\<lparr>rating_levelId = 1, rating_userId = ''ua'', rating_value = 1 / 2\<rparr>,
        \<lparr>rating_levelId = 1, rating_userId = ''ub'', rating_value = 10\<rparr>]\<rparr>,
        st_cache = delAsync (st_cache example_server) (levelRatingCacheKey @ ''lv'')\<rparr> 5 ''lv''
          (Some example_user)) = Inl BadRequestError"
      by (simp add: updateRatings_def example_server_def example_write_half)
    from getRatings_error[OF this] show False by simp
  qed
  have b: "level_ratings (st_db (snd
         (updateRatings numeric_column example_server 5 ''lv'' example_user (Some (1 / 2))))) =
       [\<lparr>rating_levelId = 1, rating_userId = ''ua'', rating_value = 1 / 2\<rparr>,
        \<lparr>rating_levelId = 1, rating_userId = ''ub'', rating_value = 10\<rparr>]"
    by (simp add: updateRatings_db example_server_def example_write_half)
  have c: "updateRatings integer_column example_server 5 ''lv'' example_user (Some (1 / 2))
       = (Inl QueryFailedError, example_server)"
    by (simp add: updateRatings_def example_server_def example_write_half)
  from a b c show ?thesis by simp
qed

text \<open>
  C4, amended. A rating that is not zero and is at most 0 or greater than 10 is rejected
  with \<open>BadRequestError\<close>, the server left as it was; a rating that is not zero changes
  the database only if it is greater than 0 and at most 10; and whenever \<open>updateRatings\<close>
  answers \<open>BadRequestError\<close> the server is left as it was.
\<close>

theorem updateRatings_range:
  "(r \<noteq> 0 \<and> (r \<le> 0 \<or> 10 < r) \<longrightarrow>
      updateRatings col st now ident user (Some r) = (Inl BadRequestError, st))
   \<and> (r \<noteq> 0 \<and> st_db (snd (updateRatings col st now ident user (Some r))) \<noteq> st_db st \<longrightarrow>
        0 < r \<and> r \<le> 10)
   \<and> (fst (updateRatings col st now ident user rating) = Inl BadRequestError \<longrightarrow>
        snd (updateRatings col st now ident user rating) = st)"
proof -
  have one: "r \<noteq> 0 \<and> (r \<le> 0 \<or> 10 < r) \<longrightarrow>
      updateRatings col st now ident user (Some r) = (Inl BadRequestError, st)"
  proof (rule impI)
    assume "r \<noteq> 0 \<and> (r \<le> 0 \<or> 10 < r)"
    then have "write_rating col (st_db st) ident user (Some r) = Inl BadRequestError"
      by (intro write_rating_rejected) simp_all
    then show "updateRatings col st now ident user (Some r) = (Inl BadRequestError, st)"
      by (simp add: updateRatings_def)
  qed
  have two: "r \<noteq> 0 \<and> st_db (snd (updateRatings col st now ident user (Some r))) \<noteq> st_db st \<longrightarrow>
        0 < r \<and> r \<le> 10"
  proof (rule impI)
    assume a: "r \<noteq> 0 \<and> st_db (snd (updateRatings col st now ident user (Some r))) \<noteq> st_db st"
    then obtain db' where "write_rating col (st_db st) ident user (Some r) = Inr db'"
      unfolding updateRatings_db by (cases "write_rating col (st_db st) ident user (Some r)") auto
    with a show "0 < r \<and> r \<le> 10" using write_rating_guard by blast
  qed
  have three: "fst (updateRatings col st now ident user rating) = Inl BadRequestError \<longrightarrow>
        snd (updateRatings col st now ident user rating) = st"
  proof (rule impI)
    assume b: "fst (updateRatings col st now ident user rating) = Inl BadRequestError"
    show "snd (updateRatings col st now ident user rating) = st"
    proof (cases "write_rating col (st_db st) ident user rating")
      case (Inl e)
      then show ?thesis by (simp add: updateRatings_def)
    next
      case (Inr db')
      with b have "fst (getRatings \<lparr>st_db = db',
          st_cache = delAsync (st_cache st) (levelRatingCacheKey @ ident)\<rparr> now ident (Some user))
          = Inl BadRequestError"
        by (simp add: updateRatings_def)
      from getRatings_error[OF this] show ?thesis by simp
    qed
  qed
  show ?thesis by (rule conjI[OF one conjI[OF two three]])
qed

theorem updateRatings_range_witness:
  "updateRatings numeric_column example_server 5 ''lv'' example_user (Some 11)
     = (Inl BadRequestError, example_server)
   \<and> updateRatings numeric_column example_server 5 ''lv'' example_user (Some (- 1))
     = (Inl BadRequestError, example_server)
   \<and> st_db (snd (updateRatings numeric_column example_server 5 ''lv'' example_user (Some 3)))
       \<noteq> st_db example_server
   \<and> (0 :: rat) < 3 \<and> (3 :: rat) \<le> 10
   \<and> snd (updateRatings numeric_column example_server 5 ''lv'' example_user (Some 11))
       = example_server"
proof -
  note t = updateRatings_range[where col = numeric_column and st = example_server and now = 5
      and ident = "''lv''" and user = example_user]
  have one: "updateRatings numeric_column example_server 5 ''lv'' example_user (Some 11)
     = (Inl BadRequestError, example_server)"
    using t[where r = 11 and rating = None] by simp
  have two: "updateRatings numeric_column example_server 5 ''lv'' example_user (Some (- 1))
     = (Inl BadRequestError, example_server)"
    using t[where r = "- 1" and rating = None] by simp
  have changed: "st_db (snd (updateRatings numeric_column example_server 5 ''lv'' example_user
       (Some 3))) \<noteq> st_db example_server"
  proof -
    have "st_db (snd (updateRatings numeric_column example_server 5 ''lv'' example_user
       (Some 3))) = example_rated_db"
      by (simp add: updateRatings_db example_server_def example_write_three)
    moreover have "level_ratings example_rated_db \<noteq> level_ratings example_db"
      by (simp add: example_rated_db_def example_level_ratings)
    ultimately show ?thesis by (auto simp: example_server_def)
  qed
  have three: "(0 :: rat) < 3 \<and> (3 :: rat) \<le> 10"
    using t[where r = 3 and rating = None] changed by simp
  have four: "snd (updateRatings numeric_column example_server 5 ''lv'' example_user (Some 11))
       = example_server"
    using t[where r = 11 and rating = "Some 11"] one by simp
  from one two changed three four show ?thesis by simp
qed

text \<open>
  C9. Called with a rating that is missing or zero, \<open>updateRatings\<close> removes the ratings
  of the caller for the level and stores nothing, when there is such a rating; when
  there is none, be it that the level exists and the caller has not rated it or that the
  level does not exist, it answers \<open>NotFoundError\<close> and leaves the server as it was.
\<close>

theorem updateRatings_remove:
  assumes "rating = None \<or> rating = Some 0"
  shows "(level_id_of_uid (st_db st) ident = Inr lid
          \<and> list_ex (\<lambda>r. Some (rating_levelId r) = lid \<and> rating_userId r = cu_id user)
               (level_ratings (st_db st)) \<longrightarrow>
        level_ratings (st_db (snd (updateRatings col st now ident user rating))) =
          filter (\<lambda>r. \<not> (Some (rating_levelId r) = lid \<and> rating_userId r = cu_id user))
            (level_ratings (st_db st)))
    \<and> (level_id_of_uid (st_db st) ident = Inr lid
          \<and> \<not> list_ex (\<lambda>r. Some (rating_levelId r) = lid \<and> rating_userId r = cu_id user)
               (level_ratings (st_db st)) \<longrightarrow>
        updateRatings col st now ident user rating = (Inl NotFoundError, st))"
proof (intro conjI impI)
  let ?hit = "\<lambda>r. Some (rating_levelId r) = lid \<and> rating_userId r = cu_id user"
  assume a: "level_id_of_uid (st_db st) ident = Inr lid \<and> list_ex ?hit (level_ratings (st_db st))"
  then have "filter ?hit (level_ratings (st_db st)) \<noteq> []"
    by (simp add: filter_empty_conv list_ex_iff)
  with a assms have "write_rating col (st_db st) ident user rating =
      Inr ((st_db st)\<lparr>level_ratings := filter (\<lambda>r. \<not> ?hit r) (level_ratings (st_db st))\<rparr>)"
    by (auto simp: write_rating_def Let_def)
  then show "level_ratings (st_db (snd (updateRatings col st now ident user rating))) =
      filter (\<lambda>r. \<not> ?hit r) (level_ratings (st_db st))"
    unfolding updateRatings_db by simp
next
  let ?hit = "\<lambda>r. Some (rating_levelId r) = lid \<and> rating_userId r = cu_id user"
  assume a: "level_id_of_uid (st_db st) ident = Inr lid \<and> \<not> list_ex ?hit (level_ratings (st_db st))"
  then have "filter ?hit (level_ratings (st_db st)) = []"
    by (simp add: filter_empty_conv list_ex_iff)
  with a assms have "write_rating col (st_db st) ident user rating = Inl NotFoundError"
    by (auto simp: write_rating_def Let_def)
  then show "updateRatings col st now ident user rating = (Inl NotFoundError, st)"
    by (simp add: updateRatings_def)
qed

theorem updateRatings_remove_witness:
  "level_id_of_uid (st_db example_server) ''lv'' = Inr (Some 1)
   \<and> list_ex (\<lambda>r. Some (rating_levelId r) = Some 1 \<and> rating_userId r = cu_id example_user)
        (level_ratings (st_db example_server))
   \<and> level_ratings (st_db (snd
         (updateRatings numeric_column example_server 5 ''lv'' example_user None))) =
       [\<lparr>rating_levelId = 1, rating_userId = ''ub'', rating_value = 10\<rparr>]
   \<and> level_id_of_uid (st_db example_server) ''lw'' = Inr (Some 2)
   \<and> updateRatings numeric_column example_server 5 ''lw'' example_user (Some 0)
       = (Inl NotFoundError, example_server)
   \<and> level_id_of_uid (st_db example_server) ''zz'' = Inr None
   \<and> updateRatings numeric_column example_server 5 ''zz'' example_user (Some 0)
       = (Inl NotFoundError, example_server)"
proof -
  have ids: "level_id_of_uid (st_db example_server) ''lv'' = Inr (Some 1)"
    "level_id_of_uid (st_db example_server) ''lw'' = Inr (Some 2)"
    "level_id_of_uid (st_db example_server) ''zz'' = Inr None"
    by (simp_all add: example_server_def example_level_ids)
  have rs: "level_ratings (st_db example_server) =
     [\<lparr>rating_levelId = 1, rating_userId = ''ua'', rating_value = 8\<rparr>,
      \<lparr>rating_levelId = 1, rating_userId = ''ub'', rating_value = 10\<rparr>]"
    by (simp add: example_server_def example_level_ratings)
  have hit: "list_ex (\<lambda>r. Some (rating_levelId r) = Some 1 \<and> rating_userId r = cu_id example_user)
        (level_ratings (st_db example_server))"
    by (simp add: rs example_user_def)
  have one: "level_ratings (st_db (snd
         (updateRatings numeric_column example_server 5 ''lv'' example_user None))) =
       [\<lparr>rating_levelId = 1, rating_userId = ''ub'', rating_value = 10\<rparr>]"
    using updateRatings_remove[where rating = None and st = example_server and ident = "''lv''"
        and lid = "Some 1" and user = example_user and col = numeric_column and now = 5]
      ids(1) hit
    by (simp add: rs example_user_def)
  have two: "updateRatings numeric_column example_server 5 ''lw'' example_user (Some 0)
       = (Inl NotFoundError, example_server)"
    using updateRatings_remove[where rating = "Some 0" and st = example_server and ident = "''lw''"
        and lid = "Some 2" and user = example_user and col = numeric_column and now = 5]
      ids(2)
    by (simp add: rs example_user_def)
  have three: "updateRatings numeric_column example_server 5 ''zz'' example_user (Some 0)
       = (Inl NotFoundError, example_server)"
    using updateRatings_remove[where rating = "Some 0" and st = example_server and ident = "''zz''"
        and lid = None and user = example_user and col = numeric_column and now = 5]
      ids(3)
    by (simp add: rs example_user_def)
  from ids hit one two three show ?thesis by simp
qed

text \<open>
  C7. When \<open>getRatings\<close> finds no live cache entry and answers, it has stored the summary
  (without the rating of the user) under the key of the level with an expiry 3600
  seconds later; until then a request is answered with that summary whatever the
  database has become, and from then on the entry is gone. A live entry is what a request
  is answered with, the server unchanged. When \<open>updateRatings\<close> answers, its answer is
  that of \<open>getRatings\<close> on the written database with the entry of the level deleted, and
  the entry then holds the summary computed anew, for 3600 seconds.
\<close>

theorem ratings_cache_ttl:
  "(getAsync (st_cache st) now (levelRatingCacheKey @ ident) = None
      \<and> getRatings st now ident user = (Inr res, st') \<longrightarrow>
        st' = st\<lparr>st_cache := (st_cache st)(levelRatingCacheKey @ ident \<mapsto>
                   (res\<lparr>rs_rating := None\<rparr>, now + 3600))\<rparr>
        \<and> (later < now + 3600 \<longrightarrow>
             getRatings (st'\<lparr>st_db := db'\<rparr>) later ident None
               = (Inr (res\<lparr>rs_rating := None\<rparr>), st'\<lparr>st_db := db'\<rparr>))
        \<and> (now + 3600 \<le> later \<longrightarrow>
             getAsync (st_cache st') later (levelRatingCacheKey @ ident) = None))
   \<and> (st_cache st (levelRatingCacheKey @ ident) = Some (v, expiry) \<and> now < expiry \<longrightarrow>
        getRatings st now ident None = (Inr v, st)
        \<and> (getRatings st now ident (Some u) = (Inr res, st') \<longrightarrow>
             res\<lparr>rs_rating := None\<rparr> = v\<lparr>rs_rating := None\<rparr> \<and> st' = st))
   \<and> (updateRatings col st now ident caller rating = (Inr res, st') \<longrightarrow>
        (Inr res, st') = getRatings
           \<lparr>st_db = st_db st', st_cache = (st_cache st)(levelRatingCacheKey @ ident := None)\<rparr>
           now ident (Some caller)
        \<and> write_rating col (st_db st) ident caller rating = Inr (st_db st')
        \<and> st_cache st' = (st_cache st)(levelRatingCacheKey @ ident \<mapsto>
                   (res\<lparr>rs_rating := None\<rparr>, now + 3600)))"
proof (rule conjI[OF _ conjI])
  show "getAsync (st_cache st) now (levelRatingCacheKey @ ident) = None
      \<and> getRatings st now ident user = (Inr res, st') \<longrightarrow>
        st' = st\<lparr>st_cache := (st_cache st)(levelRatingCacheKey @ ident \<mapsto>
                   (res\<lparr>rs_rating := None\<rparr>, now + 3600))\<rparr>
        \<and> (later < now + 3600 \<longrightarrow>
             getRatings (st'\<lparr>st_db := db'\<rparr>) later ident None
               = (Inr (res\<lparr>rs_rating := None\<rparr>), st'\<lparr>st_db := db'\<rparr>))
        \<and> (now + 3600 \<le> later \<longrightarrow>
             getAsync (st_cache st') later (levelRatingCacheKey @ ident) = None)"
    using getRatings_then_cached by blast
  show "st_cache st (levelRatingCacheKey @ ident) = Some (v, expiry) \<and> now < expiry \<longrightarrow>
        getRatings st now ident None = (Inr v, st)
        \<and> (getRatings st now ident (Some u) = (Inr res, st') \<longrightarrow>
             res\<lparr>rs_rating := None\<rparr> = v\<lparr>rs_rating := None\<rparr> \<and> st' = st)"
    using getRatings_cached by blast
  show "updateRatings col st now ident caller rating = (Inr res, st') \<longrightarrow>
        (Inr res, st') = getRatings
           \<lparr>st_db = st_db st', st_cache = (st_cache st)(levelRatingCacheKey @ ident := None)\<rparr>
           now ident (Some caller)
        \<and> write_rating col (st_db st) ident caller rating = Inr (st_db st')
        \<and> st_cache st' = (st_cache st)(levelRatingCacheKey @ ident \<mapsto>
                   (res\<lparr>rs_rating := None\<rparr>, now + 3600))"
    using updateRatings_recomputed by blast
qed

theorem ratings_cache_ttl_witness:
  "getAsync (st_cache example_server) 5 (levelRatingCacheKey @ ''lv'') = None
   \<and> getRatings example_server 5 ''lv'' None = (Inr example_summary, example_cached_server)
   \<and> st_cache example_cached_server (levelRatingCacheKey @ ''lv'') = Some (example_summary, 3605)
   \<and> getRatings (example_cached_server\<lparr>st_db := example_rated_db\<rparr>) 3604 ''lv'' None
       = (Inr example_summary, example_cached_server\<lparr>st_db := example_rated_db\<rparr>)
   \<and> getAsync (st_cache example_cached_server) 3605 (levelRatingCacheKey @ ''lv'') = None
   \<and> getRatings example_cached_server 100 ''lv'' None = (Inr example_summary, example_cached_server)
   \<and> updateRatings numeric_column example_cached_server 100 ''lv'' example_user (Some 3) =
       (Inr example_rated_summary,
        \<lparr>st_db = example_rated_db,
         st_cache = [levelRatingCacheKey @ ''lv'' \<mapsto>
                       (example_rated_summary\<lparr>rs_rating := None\<rparr>, 3700)]\<rparr>)
   \<and> write_rating numeric_column (st_db example_cached_server) ''lv'' example_user (Some 3)
       = Inr example_rated_db"
proof -
  have miss: "getAsync (st_cache example_server) 5 (levelRatingCacheKey @ ''lv'') = None"
    by (simp add: getAsync_def example_server_def)
  have entry: "st_cache example_cached_server (levelRatingCacheKey @ ''lv'')
      = Some (example_summary, 3605)"
    by (simp add: example_cached_server_def)
  have norating: "example_summary\<lparr>rs_rating := None\<rparr> = example_summary"
    by (simp add: example_summary_def)
  note t1 = ratings_cache_ttl[where st = example_server and now = 5 and ident = "''lv''"
      and user = None and res = example_summary and st' = example_cached_server
      and db' = example_rated_db]
  have served: "getRatings (example_cached_server\<lparr>st_db := example_rated_db\<rparr>) 3604 ''lv'' None
       = (Inr example_summary, example_cached_server\<lparr>st_db := example_rated_db\<rparr>)"
    using t1[where later = 3604] miss example_getRatings norating by simp
  have expired: "getAsync (st_cache example_cached_server) 3605 (levelRatingCacheKey @ ''lv'') = None"
    using t1[where later = 3605] miss example_getRatings by simp
  have hit: "getRatings example_cached_server 100 ''lv'' None
      = (Inr example_summary, example_cached_server)"
    using ratings_cache_ttl[where st = example_cached_server and now = 100 and ident = "''lv''"
        and v = example_summary and expiry = 3605] entry by simp
  have written: "write_rating numeric_column (st_db example_cached_server) ''lv'' example_user
      (Some 3) = Inr example_rated_db"
    using ratings_cache_ttl[where st = example_cached_server and now = 100 and ident = "''lv''"
        and col = numeric_column and caller = example_user and rating = "Some 3"
        and res = example_rated_summary
        and st' = "\<lparr>st_db = example_rated_db,
           st_cache = [levelRatingCacheKey @ ''lv'' \<mapsto>
                         (example_rated_summary\<lparr>rs_rating := None\<rparr>, 3700)]\<rparr>"]
      example_updateRatings by simp
  from miss example_getRatings entry served expired hit example_updateRatings written
  show ?thesis by simp
qed

section \<open>Properties of the profile figures\<close>

lemma performance_rating_eq:
  "0 \<le> a \<Longrightarrow> performance_rating a = Inr (rating_of_accuracy a)"
  by (simp add: performance_rating_def rating_of_accuracy_def)

lemma performance_rating_negative:
  "a < 0 \<Longrightarrow> performance_rating a = Inl QueryFailedError"
  by (simp add: performance_rating_def)

lemma collect_Inr: "collect (map (\<lambda>x. Inr (g x)) xs) = Inr (map g xs)"
  by (induction xs) auto

lemma join_inner:
  "[F c. c \<leftarrow> cs, k = chart_id c, b] = (if b then map F (filter (\<lambda>c. k = chart_id c) cs) else [])"
  by (induction cs) auto

lemma join_rows:
  "[F r c. r \<leftarrow> rs, c \<leftarrow> cs, rec_chartId r = chart_id c, rec_ownerId r = uuid] =
     concat (map (\<lambda>r. map (F r) (filter (\<lambda>c. rec_chartId r = chart_id c) cs))
       (filter (\<lambda>r. rec_ownerId r = uuid) rs))"
proof (induction rs)
  case Nil
  then show ?case by simp
next
  case (Cons r rs)
  have "[F r c. c \<leftarrow> cs, rec_chartId r = chart_id c, rec_ownerId r = uuid] =
      (if rec_ownerId r = uuid then map (F r) (filter (\<lambda>c. rec_chartId r = chart_id c) cs) else [])"
    by (rule join_inner)
  with Cons show ?case by simp
qed

lemma unique_chart:
  "distinct (map chart_id cs) \<Longrightarrow> list_ex (\<lambda>c. chart_id c = k) cs \<Longrightarrow>
     \<exists>c. find (\<lambda>c. chart_id c = k) cs = Some c \<and> filter (\<lambda>c. k = chart_id c) cs = [c]"
proof (induction cs)
  case Nil
  then show ?case by simp
next
  case (Cons c cs)
  show ?case
  proof (cases "chart_id c = k")
    case True
    with Cons.prems(1) have "\<forall>x\<in>set cs. chart_id x \<noteq> k" by (auto simp: image_iff)
    then have "filter (\<lambda>c. k = chart_id c) cs = []" by (auto simp: filter_empty_conv)
    with True show ?thesis by simp
  next
    case False
    with Cons show ?thesis by auto
  qed
qed

lemma joined_one:
  assumes d: "distinct (map chart_id cs)"
    and a: "list_all (\<lambda>r. P r \<and> list_ex (\<lambda>c. chart_id c = rec_chartId r) cs) rs"
  shows "concat (map (\<lambda>r. map (F r) (filter (\<lambda>c. rec_chartId r = chart_id c) cs)) rs) =
     map (\<lambda>r. case find (\<lambda>c. chart_id c = rec_chartId r) cs of None \<Rightarrow> Z r | Some c \<Rightarrow> F r c) rs"
  using a
proof (induction rs)
  case Nil
  then show ?case by simp
next
  case (Cons r rs)
  then have "list_ex (\<lambda>c. chart_id c = rec_chartId r) cs" by simp
  from unique_chart[OF d this] obtain c
    where "find (\<lambda>c. chart_id c = rec_chartId r) cs = Some c"
      and "filter (\<lambda>c. rec_chartId r = chart_id c) cs = [c]" by blast
  with Cons show ?case by simp
qed

lemma personalRating_average:
  assumes "distinct (map chart_id (charts db))"
    and "list_all (\<lambda>r. 0 \<le> rec_accuracy r
            \<and> list_ex (\<lambda>c. chart_id c = rec_chartId r) (charts db))
          (filter (\<lambda>r. rec_ownerId r = uuid) (records db))"
  shows "personalRating db uuid = Inr (average_rating db uuid)"
proof -
  let ?mine = "filter (\<lambda>r. rec_ownerId r = uuid) (records db)"
  let ?F = "\<lambda>r c. case performance_rating (rec_accuracy r) of
           Inl e \<Rightarrow> Inl e
         | Inr p \<Rightarrow> Inr (p * chart_difficulty c)"
  let ?G = "\<lambda>r. rating_of_accuracy (rec_accuracy r)
                      * (case find (\<lambda>c. chart_id c = rec_chartId r) (charts db) of
                           None \<Rightarrow> 0 | Some c \<Rightarrow> chart_difficulty c)"
  have rows: "[?F r c. r \<leftarrow> records db, c \<leftarrow> charts db, rec_chartId r = chart_id c,
                 rec_ownerId r = uuid] =
      map (\<lambda>r. case find (\<lambda>c. chart_id c = rec_chartId r) (charts db) of
                  None \<Rightarrow> Inr (?G r) | Some c \<Rightarrow> ?F r c) ?mine"
    unfolding join_rows by (rule joined_one[OF assms])
  have "map (\<lambda>r. case find (\<lambda>c. chart_id c = rec_chartId r) (charts db) of
                  None \<Rightarrow> Inr (?G r) | Some c \<Rightarrow> ?F r c) ?mine = map (\<lambda>r. Inr (?G r)) ?mine"
  proof (rule map_cong[OF refl])
    fix r assume "r \<in> set ?mine"
    with assms(2) have "0 \<le> rec_accuracy r" by (auto simp: list_all_iff)
    then show "(case find (\<lambda>c. chart_id c = rec_chartId r) (charts db) of
                  None \<Rightarrow> Inr (?G r) | Some c \<Rightarrow> ?F r c) = Inr (?G r)"
      by (simp add: performance_rating_eq split: option.splits)
  qed
  with rows have "collect [?F r c. r \<leftarrow> records db, c \<leftarrow> charts db, rec_chartId r = chart_id c,
                 rec_ownerId r = uuid] = Inr (map ?G ?mine)"
    by (simp only: collect_Inr)
  then show ?thesis
    unfolding personalRating_def average_rating_def by simp
qed

lemma example_charts: "distinct (map chart_id (charts example_db))"
  by (simp add: example_db_def)

lemma example_mine:
  "filter (\<lambda>r. rec_ownerId r = ''ua'') (records example_db) =
     [example_record 1 ''ua'' 7 900000 5 True, example_record 3 ''ua'' 7 950000 9 False]"
  by (simp add: example_db_def example_record_def)

lemma example_average_rating: "average_rating example_db ''ua'' = Some 15"
  unfolding average_rating_def example_mine
  by (simp add: example_db_def example_record_def rating_of_accuracy_def sql_avg_def)

lemma example_scores:
  "scores example_db ''uc'' =
     [\<lparr>score_base = 300, score_score = 1000000, score_level = 2\<rparr>,
      \<lparr>score_base = 150, score_score = 1000000, score_level = 1\<rparr>]"
  by (simp add: scores_def example_db_def example_record_def example_level_def)

lemma example_chart_scores:
  "chart_scores
     [\<lparr>score_base = 300, score_score = 1000000, score_level = 2\<rparr>,
      \<lparr>score_base = 150, score_score = 1000000, score_level = 1\<rparr>] = [450, 225]"
  by (simp add: chart_scores_def)

text \<open>
  The sums of \<open>exp\<close> run over pairs: the sum over the records is taken once for every
  level played, the sum over the levels once for every record.
\<close>

lemma sum_pairs_left:
  "sum_list (map (\<lambda>(s, c). f s) [(s, c). s \<leftarrow> ss, c \<leftarrow> cs]) =
     of_nat (length cs) * (sum_list (map f ss) :: real)"
proof (induction ss)
  case Nil
  then show ?case by simp
next
  case (Cons s ss)
  have "sum_list (map (\<lambda>(s, c). f s) (map (Pair s) cs)) = of_nat (length cs) * f s"
    by (induction cs) (simp_all add: algebra_simps)
  with Cons show ?case by (simp add: algebra_simps)
qed

lemma sum_pairs_right:
  "sum_list (map (\<lambda>(s, c). c) [(s, c). s \<leftarrow> ss, c \<leftarrow> cs]) =
     of_nat (length ss) * (sum_list cs :: real)"
proof (induction ss)
  case Nil
  then show ?case by simp
next
  case (Cons s ss)
  have "map (\<lambda>(s, c). c) (map (Pair s) cs) = cs"
    by (induction cs) simp_all
  with Cons show ?case by (simp add: algebra_simps)
qed

lemma exp_of_sums:
  assumes "exp_of db uuid = Inr res" and "scores db uuid \<noteq> []"
  shows "basicExp res =
           Some (of_nat (length (chart_scores (scores db uuid))) * sum_basic_exp db uuid)
       \<and> levelExp res = Some (of_nat (length (scores db uuid)) * sum_level_exp db uuid)"
proof -
  let ?ss = "scores db uuid"
  let ?cs = "chart_scores ?ss"
  have "map score_level ?ss \<noteq> []" using assms(2) by simp
  then have "remdups (map score_level ?ss) \<noteq> []" by (simp only: remdups_eq_nil_iff not_False_eq_True)
  then have cs: "?cs \<noteq> []" by (simp add: chart_scores_def)
  have pairs: "[(s, c). s \<leftarrow> ?ss, c \<leftarrow> ?cs] \<noteq> []"
    using assms(2) cs by (cases ?ss; cases ?cs) auto
  from assms(1) have "basicExp res = Some (sum_list (map (\<lambda>(s, c).
        sqrt (real_of_int (score_score s) / 1000000) * score_base s) [(s, c). s \<leftarrow> ?ss, c \<leftarrow> ?cs]))"
    and "levelExp res = Some (sum_list (map (\<lambda>(s, c). c) [(s, c). s \<leftarrow> ?ss, c \<leftarrow> ?cs]))"
    using pairs unfolding exp_of_def Let_def
    by (auto split: if_splits)
  then show ?thesis
    unfolding sum_pairs_left sum_pairs_right sum_basic_exp_def sum_level_exp_def by simp
qed

text \<open>
  C5. When the ids of the charts are distinct and every record of the user has an
  accuracy that is not negative and a chart, \<open>personalRating\<close> answers the average, over
  the records of the user, of the performance rating of the record times the difficulty
  of its chart (nothing for a user without record). The performance rating of an
  accuracy \<open>a\<close> that is not negative is \<open>sqrt (a / 0.7) * 0.5\<close> below 0.7,
  \<open>0.7 - 0.2 * log ((1 - a) / 0.03)\<close> from 0.7 and below 0.97,
  \<open>0.7 - 0.16 * log ((1 - a) / 0.03)\<close> from 0.97 and below 0.997,
  \<open>0.78 - 0.08 * log ((1 - a) / 0.03)\<close> from 0.997 and below 0.9997, and \<open>a * 200 - 199\<close>
  from 0.9997 on, the logarithm being to base 10. Numbers are real numbers here.
\<close>

theorem personalRating_piecewise:
  "(distinct (map chart_id (charts db))
      \<and> list_all (\<lambda>r. 0 \<le> rec_accuracy r
            \<and> list_ex (\<lambda>c. chart_id c = rec_chartId r) (charts db))
          (filter (\<lambda>r. rec_ownerId r = uuid) (records db))
     \<longrightarrow> personalRating db uuid = Inr (average_rating db uuid))
   \<and> (0 \<le> a \<and> a < 0.7 \<longrightarrow> performance_rating a = Inr (sqrt (a / 0.7) * 0.5))
   \<and> (0.7 \<le> a \<and> a < 0.97 \<longrightarrow>
        performance_rating a = Inr (0.7 - 0.2 * log 10 ((1 - a) / 0.03)))
   \<and> (0.97 \<le> a \<and> a < 0.997 \<longrightarrow>
        performance_rating a = Inr (0.7 - 0.16 * log 10 ((1 - a) / 0.03)))
   \<and> (0.997 \<le> a \<and> a < 0.9997 \<longrightarrow>
        performance_rating a = Inr (0.78 - 0.08 * log 10 ((1 - a) / 0.03)))
   \<and> (0.9997 \<le> a \<longrightarrow> performance_rating a = Inr (a * 200 - 199))"
proof -
  have avg: "distinct (map chart_id (charts db))
      \<and> list_all (\<lambda>r. 0 \<le> rec_accuracy r
            \<and> list_ex (\<lambda>c. chart_id c = rec_chartId r) (charts db))
          (filter (\<lambda>r. rec_ownerId r = uuid) (records db))
     \<longrightarrow> personalRating db uuid = Inr (average_rating db uuid)"
    using personalRating_average by blast
  have p1: "0 \<le> a \<and> a < 0.7 \<longrightarrow> performance_rating a = Inr (sqrt (a / 0.7) * 0.5)"
    by (simp add: performance_rating_def)
  have p2: "0.7 \<le> a \<and> a < 0.97 \<longrightarrow>
        performance_rating a = Inr (0.7 - 0.2 * log 10 ((1 - a) / 0.03))"
    by (simp add: performance_rating_def)
  have p3: "0.97 \<le> a \<and> a < 0.997 \<longrightarrow>
        performance_rating a = Inr (0.7 - 0.16 * log 10 ((1 - a) / 0.03))"
    by (simp add: performance_rating_def)
  have p4: "0.997 \<le> a \<and> a < 0.9997 \<longrightarrow>
        performance_rating a = Inr (0.78 - 0.08 * log 10 ((1 - a) / 0.03))"
    by (simp add: performance_rating_def)
  have p5: "0.9997 \<le> a \<longrightarrow> performance_rating a = Inr (a * 200 - 199)"
    by (simp add: performance_rating_def)
  show ?thesis
    by (rule conjI[OF avg conjI[OF p1 conjI[OF p2 conjI[OF p3 conjI[OF p4 p5]]]]])
qed

theorem personalRating_piecewise_witness:
  "distinct (map chart_id (charts example_db))
   \<and> list_all (\<lambda>r. 0 \<le> rec_accuracy r
            \<and> list_ex (\<lambda>c. chart_id c = rec_chartId r) (charts example_db))
          (filter (\<lambda>r. rec_ownerId r = ''ua'') (records example_db))
   \<and> personalRating example_db ''ua'' = Inr (Some 15)
   \<and> performance_rating (1 / 2) = Inr (sqrt ((1 / 2) / 0.7) * 0.5)
   \<and> performance_rating 0.8 = Inr (0.7 - 0.2 * log 10 ((1 - 0.8) / 0.03))
   \<and> performance_rating 0.98 = Inr (0.7 - 0.16 * log 10 ((1 - 0.98) / 0.03))
   \<and> performance_rating 0.999 = Inr (0.78 - 0.08 * log 10 ((1 - 0.999) / 0.03))
   \<and> performance_rating 1 = Inr 1"
proof -
  have h: "list_all (\<lambda>r. 0 \<le> rec_accuracy r
            \<and> list_ex (\<lambda>c. chart_id c = rec_chartId r) (charts example_db))
          (filter (\<lambda>r. rec_ownerId r = ''ua'') (records example_db))"
    unfolding example_mine by (simp add: example_db_def example_record_def)
  note t = personalRating_piecewise[where db = example_db and uuid = "''ua''"]
  have one: "personalRating example_db ''ua'' = Inr (Some 15)"
    using t[where a = 1] example_charts h example_average_rating by simp
  have two: "performance_rating (1 / 2) = Inr (sqrt ((1 / 2) / 0.7) * 0.5)"
    using t[where a = "1 / 2"] by simp
  have three: "performance_rating 0.8 = Inr (0.7 - 0.2 * log 10 ((1 - 0.8) / 0.03))"
    using t[where a = "0.8"] by simp
  have four: "performance_rating 0.98 = Inr (0.7 - 0.16 * log 10 ((1 - 0.98) / 0.03))"
    using t[where a = "0.98"] by simp
  have five: "performance_rating 0.999 = Inr (0.78 - 0.08 * log 10 ((1 - 0.999) / 0.03))"
    using t[where a = "0.999"] by simp
  have six: "performance_rating 1 = Inr 1"
    using t[where a = 1] by simp
  show ?thesis
    by (rule conjI[OF example_charts conjI[OF h conjI[OF one conjI[OF two conjI[OF three
          conjI[OF four conjI[OF five six]]]]]]])
qed

text \<open>
  C6. The query of \<open>exp\<close> sums over the pairs of a row of \<open>scores\<close> and a row of
  \<open>chart_scores\<close>. For carol, who has a full score on one chart of each of two levels,
  the basic experience answered is 900 where the sum over her records is 450, and the
  level experience answered is 1350 where the sum of the greatest values per level is
  675.
\<close>

theorem exp_cross_join_example:
  "map_sum id basicExp (exp_of example_db ''uc'') = Inr (Some 900)
   \<and> sum_basic_exp example_db ''uc'' = 450
   \<and> map_sum id levelExp (exp_of example_db ''uc'') = Inr (Some 1350)
   \<and> sum_level_exp example_db ''uc'' = 675"
  by (simp add: exp_of_def sum_basic_exp_def sum_level_exp_def example_scores
      example_chart_scores Let_def)

end
